theory Spec2Isabelle
  imports Complex_Main "HOL-Library.Product_Lexorder" "HOL-Library.Multiset"
begin

section \<open>Python values used by the wallet module\<close>

subsection \<open>Floats\<close>

text \<open>
  A Python \<^verbatim>\<open>float\<close> is an IEEE 754 binary64 number. A finite one is modelled by
  the rational it denotes, and every operation of the source that produces a float
  rounds the exact result to the nearest binary64 (ties to even), as CPython does.
  \<open>None\<close> stands for a result beyond the finite range (\<^verbatim>\<open>inf\<close>).
\<close>

type_synonym pyfloat = rat

text \<open>\<^verbatim>\<open>int.bit_length\<close> of a non-negative int.\<close>

function bit_length :: "int \<Rightarrow> nat" where
  "bit_length n = (if n \<le> 0 then 0 else Suc (bit_length (n div 2)))"
  by pat_completeness auto
termination
  by (relation "measure nat") auto

declare bit_length.simps [simp del]

definition pow2 :: "int \<Rightarrow> rat" where
  "pow2 e = (if 0 \<le> e then 2 ^ nat e else 1 / 2 ^ nat (- e))"

definition round_half_even :: "rat \<Rightarrow> int" where
  "round_half_even r =
     (let f = \<lfloor>r\<rfloor>; d = r - of_int f
      in if d < 1 / 2 then f
         else if 1 / 2 < d then f + 1
         else if even f then f else f + 1)"

text \<open>\<open>floor_log2 q\<close> is the integer \<open>k\<close> with \<open>2^k \<le> q < 2^(k+1)\<close>, for \<open>q > 0\<close>.\<close>

definition floor_log2 :: "rat \<Rightarrow> int" where
  "floor_log2 q =
     (let (a, b) = quotient_of q;
          d = int (bit_length a) - int (bit_length b)
      in if pow2 d \<le> q then d else d - 1)"

text \<open>
  Rounding a positive rational to binary64: 53 significant bits, the exponent of the
  last place not below \<open>-1074\<close> (subnormals), overflow from \<open>2^1024\<close> on.
\<close>

definition binary64_pos :: "rat \<Rightarrow> pyfloat option" where
  "binary64_pos q =
     (let e = max (floor_log2 q - 52) (- 1074);
          r = of_int (round_half_even (q / pow2 e)) * pow2 e
      in if pow2 1024 \<le> r then None else Some r)"

definition binary64 :: "rat \<Rightarrow> pyfloat option" where
  "binary64 q =
     (if q = 0 then Some 0
      else if 0 < q then binary64_pos q
      else map_option uminus (binary64_pos (- q)))"

text \<open>\<^verbatim>\<open>i * x\<close> for an int \<open>i\<close> and a float \<open>x\<close>: the int is converted to a float,
  then the product is rounded.\<close>

definition float_of_int :: "int \<Rightarrow> pyfloat option" where
  "float_of_int i = binary64 (of_int i)"

definition int_times_float :: "int \<Rightarrow> pyfloat \<Rightarrow> pyfloat option" where
  "int_times_float i x = (case float_of_int i of None \<Rightarrow> None | Some y \<Rightarrow> binary64 (y * x))"

text \<open>\<^verbatim>\<open>int(x)\<close> on a finite float drops the fractional part (towards zero).\<close>

definition py_int :: "pyfloat \<Rightarrow> int" where
  "py_int x = (if 0 \<le> x then \<lfloor>x\<rfloor> else \<lceil>x\<rceil>)"

text \<open>The float literals of the source, as the binary64 numbers they are read as.\<close>

definition float_1_0 :: pyfloat where "float_1_0 = 1"
definition float_1_2 :: pyfloat where "float_1_2 = 5404319552844595 / 4503599627370496"
definition float_1_5 :: pyfloat where "float_1_5 = 3 / 2"
definition float_2_0 :: pyfloat where "float_2_0 = 2"

subsection \<open>Exceptions and HTTP errors\<close>

datatype exn = StoreError | KeyError | ValueError | OverflowError

text \<open>
  \<open>HTTPException status detail\<close> is FastAPI's exception; the text of the caught
  exception that the source appends to \<open>detail\<close> is left out, and so is the emoji
  that ends the two success messages. \<open>RequestValidationError\<close>
  is what the framework answers when the request body does not fit its pydantic model.
\<close>

datatype error = HTTPException nat string | RequestValidationError

section \<open>models/schemas.py\<close>

datatype ActivityType = POMODORO | EXERCISE | STUDY | DEEP_WORK

fun ActivityType_value :: "ActivityType \<Rightarrow> string" where
  "ActivityType_value POMODORO = ''pomodoro_25min''"
| "ActivityType_value EXERCISE = ''exercise_30min''"
| "ActivityType_value STUDY = ''study_1h''"
| "ActivityType_value DEEP_WORK = ''deep_work_2h''"

text \<open>Looking a member up by value, as pydantic does for a field of the enum's type.\<close>

definition ActivityType_of_value :: "string \<Rightarrow> ActivityType option" where
  "ActivityType_of_value s =
     (if s = ''pomodoro_25min'' then Some POMODORO
      else if s = ''exercise_30min'' then Some EXERCISE
      else if s = ''study_1h'' then Some STUDY
      else if s = ''deep_work_2h'' then Some DEEP_WORK
      else None)"

text \<open>Field names carry a prefix where the plain name is taken (\<open>notes\<close> is a keyword).\<close>

record ActivityCreate =
  ac_activity_type :: ActivityType
  ac_duration_minutes :: "int option"
  ac_notes :: "string option"

section \<open>api/wallet.py: configuration tables and pure helpers\<close>

text \<open>A dict literal is the list of its items in the order written; keys are distinct.\<close>

definition ACTIVITY_COINS :: "(ActivityType \<times> int) list" where
  "ACTIVITY_COINS = [(POMODORO, 50), (EXERCISE, 75), (STUDY, 100), (DEEP_WORK, 200)]"

definition STREAK_MULTIPLIERS :: "(int \<times> pyfloat) list" where
  "STREAK_MULTIPLIERS = [(3, float_1_2), (7, float_1_5), (30, float_2_0)]"

text \<open>\<^verbatim>\<open>sorted(d.items(), reverse=True)\<close> and \<^verbatim>\<open>sorted(d.items())\<close>: tuples are
  compared lexicographically.\<close>

definition sorted_items_reverse :: "(int \<times> pyfloat) list \<Rightarrow> (int \<times> pyfloat) list" where
  "sorted_items_reverse d = rev (sort d)"

definition sorted_items :: "(int \<times> pyfloat) list \<Rightarrow> (int \<times> pyfloat) list" where
  "sorted_items d = sort d"

text \<open>The \<^verbatim>\<open>for\<close> loop of \<^verbatim>\<open>get_streak_multiplier\<close> over the sorted items.\<close>

fun get_streak_multiplier_loop :: "int \<Rightarrow> (int \<times> pyfloat) list \<Rightarrow> pyfloat" where
  "get_streak_multiplier_loop streak_days [] = float_1_0"
| "get_streak_multiplier_loop streak_days ((days, multiplier) # rest) =
     (if streak_days \<ge> days then multiplier
      else get_streak_multiplier_loop streak_days rest)"

text \<open>\<^verbatim>\<open>get_streak_multiplier\<close> with the table as a parameter, and on the module's table.\<close>

definition streak_multiplier_in :: "(int \<times> pyfloat) list \<Rightarrow> int \<Rightarrow> pyfloat" where
  "streak_multiplier_in table streak_days =
     get_streak_multiplier_loop streak_days (sorted_items_reverse table)"

definition get_streak_multiplier :: "int \<Rightarrow> pyfloat" where
  "get_streak_multiplier streak_days = streak_multiplier_in STREAK_MULTIPLIERS streak_days"

record streak_target =
  days_needed :: int
  target_days :: int
  bonus_multiplier :: pyfloat
  message :: "string option"

fun get_next_streak_target_loop :: "int \<Rightarrow> (int \<times> pyfloat) list \<Rightarrow> streak_target option" where
  "get_next_streak_target_loop current_streak [] = None"
| "get_next_streak_target_loop current_streak ((days, multiplier) # rest) =
     (if current_streak < days
      then Some \<lparr>days_needed = days - current_streak, target_days = days,
                 bonus_multiplier = multiplier, message = None\<rparr>
      else get_next_streak_target_loop current_streak rest)"

text \<open>After the loop: \<^verbatim>\<open>max\<close> of no keys raises \<^verbatim>\<open>ValueError\<close>.\<close>

definition next_streak_target_in :: "(int \<times> pyfloat) list \<Rightarrow> int \<Rightarrow> exn + streak_target" where
  "next_streak_target_in table current_streak =
     (case get_next_streak_target_loop current_streak (sorted_items table) of
        Some t \<Rightarrow> Inr t
      | None \<Rightarrow>
          if table = [] then Inl ValueError
          else (case map_of table (Max (set (map fst table))) of
                  None \<Rightarrow> Inl KeyError
                | Some m \<Rightarrow>
                    Inr \<lparr>days_needed = 0, target_days = current_streak,
                         bonus_multiplier = m,
                         message = Some ''Maximum streak bonus achieved!''\<rparr>))"

definition get_next_streak_target :: "int \<Rightarrow> exn + streak_target" where
  "get_next_streak_target current_streak = next_streak_target_in STREAK_MULTIPLIERS current_streak"

section \<open>main_old.py: the single-file variant\<close>

definition STREAK_MULTIPLIERS_old :: "(int \<times> pyfloat) list" where
  "STREAK_MULTIPLIERS_old = [(3, float_1_2), (7, float_1_5), (30, float_2_0)]"

fun get_streak_multiplier_old_loop :: "int \<Rightarrow> (int \<times> pyfloat) list \<Rightarrow> pyfloat" where
  "get_streak_multiplier_old_loop streak_days [] = float_1_0"
| "get_streak_multiplier_old_loop streak_days ((days, multiplier) # rest) =
     (if streak_days \<ge> days then multiplier
      else get_streak_multiplier_old_loop streak_days rest)"

definition get_streak_multiplier_old :: "int \<Rightarrow> pyfloat" where
  "get_streak_multiplier_old streak_days =
     get_streak_multiplier_old_loop streak_days (rev (sort STREAK_MULTIPLIERS_old))"

section \<open>The reward computed by \<^verbatim>\<open>earn_coins\<close>\<close>

text \<open>\<^verbatim>\<open>d[k]\<close> on a dict raises \<^verbatim>\<open>KeyError\<close> for a missing key.\<close>

definition dict_getitem :: "('k \<times> 'v) list \<Rightarrow> 'k \<Rightarrow> exn + 'v" where
  "dict_getitem d k = (case map_of d k of None \<Rightarrow> Inl KeyError | Some v \<Rightarrow> Inr v)"

text \<open>\<^verbatim>\<open>int(base_coins * streak_multiplier)\<close>; \<^verbatim>\<open>int\<close> of an infinite float raises.\<close>

definition final_coins_of :: "int \<Rightarrow> pyfloat \<Rightarrow> exn + int" where
  "final_coins_of base_coins streak_multiplier =
     (case int_times_float base_coins streak_multiplier of
        None \<Rightarrow> Inl OverflowError
      | Some x \<Rightarrow> Inr (py_int x))"

text \<open>
  The multiplier table as the specification words it, in exact decimal fractions:
  1.2 from 3 days, 1.5 from 7 days, 2.0 from 30 days, 1.0 below.
\<close>

definition spec_multiplier :: "int \<Rightarrow> rat" where
  "spec_multiplier streak_days =
     (if 30 \<le> streak_days then 2 else if 7 \<le> streak_days then 3 / 2
      else if 3 \<le> streak_days then 6 / 5 else 1)"

section \<open>The datastore\<close>

text \<open>
  The two tables the wallet module reads and writes through the Supabase client.
  A timestamp is a number of seconds since the epoch, in UTC; the calendar date of a
  timestamp is its day number. \<^verbatim>\<open>created_at[:10]\<close> and \<^verbatim>\<open>strftime('%Y-%m-%d')\<close>
  denote dates in the same format, so that two such strings are equal exactly when the
  day numbers are.
\<close>

record activity_row =
  act_user_id :: string
  act_activity_type :: string
  act_coins_earned :: int
  act_duration_minutes :: "int option"
  act_notes :: "string option"
  act_streak_days :: int
  act_multiplier_applied :: pyfloat
  act_created_at :: int

record wallet_row =
  wal_user_id :: string
  wal_balance :: int
  wal_updated_at :: int

record store =
  activities :: "activity_row list"
  wallets :: "wallet_row list"

definition date_of :: "int \<Rightarrow> int" where
  "date_of ts = ts div 86400"

text \<open>
  Each \<^verbatim>\<open>.execute()\<close> either raises (the store cannot be reached) or answers with
  \<^verbatim>\<open>data\<close>; the flag \<open>ok\<close> of a call says which. A call that raises changes nothing.
\<close>

text \<open>\<^verbatim>\<open>select('created_at').eq('user_id', u).gte('created_at', t).order('created_at', desc=True)\<close>\<close>

definition select_created_at :: "bool \<Rightarrow> store \<Rightarrow> string \<Rightarrow> int \<Rightarrow> exn + int list" where
  "select_created_at ok db user_id since =
     (if ok
      then Inr (rev (sort (map act_created_at
             (filter (\<lambda>r. act_user_id r = user_id \<and> since \<le> act_created_at r) (activities db)))))
      else Inl StoreError)"

text \<open>\<^verbatim>\<open>table('activities').insert({...})\<close>: the store stamps \<open>created_at\<close> and answers
  with the inserted row.\<close>

definition insert_activity ::
  "bool \<Rightarrow> int \<Rightarrow> store \<Rightarrow> activity_row \<Rightarrow> exn + (activity_row list \<times> store)" where
  "insert_activity ok now db row =
     (if ok
      then (let r = row\<lparr>act_created_at := now\<rparr>
            in Inr ([r], db\<lparr>activities := activities db @ [r]\<rparr>))
      else Inl StoreError)"

text \<open>\<^verbatim>\<open>table('wallets').select('balance').eq('user_id', u)\<close>\<close>

definition select_balance :: "bool \<Rightarrow> store \<Rightarrow> string \<Rightarrow> exn + int list" where
  "select_balance ok db user_id =
     (if ok
      then Inr (map wal_balance (filter (\<lambda>w. wal_user_id w = user_id) (wallets db)))
      else Inl StoreError)"

text \<open>\<^verbatim>\<open>table('wallets').update({'balance': b, 'updated_at': t}).eq('user_id', u)\<close>:
  the answer holds the rows that were updated.\<close>

definition update_wallet ::
  "bool \<Rightarrow> store \<Rightarrow> string \<Rightarrow> int \<Rightarrow> int \<Rightarrow> exn + (wallet_row list \<times> store)" where
  "update_wallet ok db user_id new_balance now =
     (if ok
      then (let upd = (\<lambda>w. if wal_user_id w = user_id
                           then w\<lparr>wal_balance := new_balance, wal_updated_at := now\<rparr> else w)
            in Inr (map upd (filter (\<lambda>w. wal_user_id w = user_id) (wallets db)),
                    db\<lparr>wallets := map upd (wallets db)\<rparr>))
      else Inl StoreError)"

text \<open>
  \<^verbatim>\<open>select('*').eq('user_id', u).order('created_at', desc=True).limit(n)\<close>. For a
  positive \<open>n\<close> the store answers with the first \<open>n\<close> rows; what it does with another
  \<open>n\<close> is the store's business and is a parameter here.
\<close>

definition select_history ::
  "bool \<Rightarrow> (int \<Rightarrow> activity_row list \<Rightarrow> exn + activity_row list) \<Rightarrow> store \<Rightarrow> string \<Rightarrow> int
     \<Rightarrow> exn + activity_row list" where
  "select_history ok nonpositive db user_id limit =
     (if ok
      then (let rows = rev (sort_key act_created_at
                         (filter (\<lambda>r. act_user_id r = user_id) (activities db)))
            in if 0 < limit then Inr (take (nat limit) rows) else nonpositive limit rows)
      else Inl StoreError)"

text \<open>SQL's \<^verbatim>\<open>LIMIT\<close>: no rows for 0, an error for a negative count.\<close>

definition sql_limit :: "int \<Rightarrow> activity_row list \<Rightarrow> exn + activity_row list" where
  "sql_limit n rows = (if n < 0 then Inl StoreError else Inr (take (nat n) rows))"

section \<open>api/wallet.py: \<^verbatim>\<open>calculate_user_streak\<close>\<close>

text \<open>The \<^verbatim>\<open>while True\<close> loop: walk back from \<open>current_date\<close> while the date is in
  \<open>activity_dates\<close> (a Python set, of which only membership is used).\<close>

function streak_loop :: "int list \<Rightarrow> int \<Rightarrow> int \<Rightarrow> int" where
  "streak_loop activity_dates current_date streak =
     (if current_date \<in> set activity_dates
      then streak_loop activity_dates (current_date - 1) (streak + 1)
      else streak)"
  by pat_completeness auto
termination
proof (relation "measure (\<lambda>(ds, c, s). card {d \<in> set ds. d \<le> c})")
  show "wf (measure (\<lambda>(ds, c, s). card {d \<in> set ds. d \<le> c}))"
    by simp
next
  fix activity_dates :: "int list" and current_date streak :: int
  assume mem: "current_date \<in> set activity_dates"
  have "{d \<in> set activity_dates. d \<le> current_date - 1}
          \<subset> {d \<in> set activity_dates. d \<le> current_date}"
    using mem by auto
  then have "card {d \<in> set activity_dates. d \<le> current_date - 1}
          < card {d \<in> set activity_dates. d \<le> current_date}"
    by (intro psubset_card_mono) auto
  then show "((activity_dates, current_date - 1, streak + 1),
              (activity_dates, current_date, streak))
             \<in> measure (\<lambda>(ds, c, s). card {d \<in> set ds. d \<le> c})"
    by simp
qed

declare streak_loop.simps [simp del]

text \<open>
  The body of the \<^verbatim>\<open>try\<close>. The two readings of the clock are taken as one instant
  \<open>now\<close>; \<open>ok\<close> is the flag of the one store call.
\<close>

definition calculate_user_streak_try :: "bool \<Rightarrow> int \<Rightarrow> store \<Rightarrow> string \<Rightarrow> exn + int" where
  "calculate_user_streak_try ok now db user_id =
     (let sixty_days_ago = now - 60 * 86400
      in case select_created_at ok db user_id sixty_days_ago of
           Inl e \<Rightarrow> Inl e
         | Inr data \<Rightarrow>
             if data = [] then Inr 0
             else (let activity_dates = map date_of data;
                       current_date = date_of now
                   in Inr (streak_loop activity_dates current_date 0)))"

text \<open>
  \<^verbatim>\<open>get_supabase_client()\<close> (database/supabase_client.py) returns the client it holds,
  or creates it from the two environment variables, and raises \<^verbatim>\<open>ValueError\<close> when it
  holds none and a variable is missing. \<open>client\<close> says that a client is held or can be
  created.
\<close>

definition get_supabase_client :: "bool \<Rightarrow> exn + unit" where
  "get_supabase_client client = (if client then Inr () else Inl ValueError)"

text \<open>
  \<^verbatim>\<open>calculate_user_streak\<close>: the client is fetched before the \<^verbatim>\<open>try\<close>, so that its
  \<^verbatim>\<open>ValueError\<close> leaves the function; the \<^verbatim>\<open>try\<close> body has
  \<^verbatim>\<open>except Exception: ... return 0\<close> around it. \<open>Inl\<close> is an exception that leaves
  the function.
\<close>

definition calculate_user_streak :: "bool \<Rightarrow> bool \<Rightarrow> int \<Rightarrow> store \<Rightarrow> string \<Rightarrow> exn + int" where
  "calculate_user_streak client ok now db user_id =
     (case get_supabase_client client of
        Inl e \<Rightarrow> Inl e
      | Inr supabase \<Rightarrow>
          (case calculate_user_streak_try ok now db user_id of
             Inl e \<Rightarrow> Inr 0
           | Inr streak \<Rightarrow> Inr streak))"

text \<open>
  The calendar dates on which the user has an activity inside the lookback window of
  the query, that is, not older than 60 times 24 hours before \<open>now\<close>.
\<close>

definition window_dates :: "store \<Rightarrow> string \<Rightarrow> int \<Rightarrow> int set" where
  "window_dates db user_id now =
     set (map date_of (filter (\<lambda>ts. now - 60 * 86400 \<le> ts)
       (map act_created_at (filter (\<lambda>r. act_user_id r = user_id) (activities db)))))"

text \<open>
  A user who was active every evening (20:00) from day 40 to day 99 and in the morning
  (08:00) of day 100, seen at 09:00 of day 100.
\<close>

definition evening_row :: "int \<Rightarrow> activity_row" where
  "evening_row d =
     \<lparr>act_user_id = ''u'', act_activity_type = ''pomodoro_25min'', act_coins_earned = 50,
      act_duration_minutes = None, act_notes = None, act_streak_days = 0,
      act_multiplier_applied = float_1_0, act_created_at = d * 86400 + 72000\<rparr>"

definition store_61 :: store where
  "store_61 =
     \<lparr>activities = map evening_row [40..99] @ [(evening_row 100)\<lparr>act_created_at := 100 * 86400 + 28800\<rparr>],
      wallets = [\<lparr>wal_user_id = ''u'', wal_balance = 100, wal_updated_at = 0\<rparr>]\<rparr>"

definition now_61 :: int where
  "now_61 = 100 * 86400 + 32400"

section \<open>api/wallet.py: \<^verbatim>\<open>earn_coins\<close>\<close>

record earn_response =
  er_message :: string
  er_activity_type :: string
  er_base_coins :: int
  er_streak_days :: int
  er_streak_multiplier :: pyfloat
  er_final_coins :: int
  er_new_balance :: int

definition failed_to_earn :: error where
  "failed_to_earn = HTTPException 500 ''Failed to earn coins''"

text \<open>
  The handler makes four store calls; \<open>up k\<close> is the flag of the \<open>k\<close>-th. The result is
  the response or the HTTP error, together with the store as the handler leaves it.
  An exception other than \<^verbatim>\<open>HTTPException\<close> is turned into status 500 by the last
  \<^verbatim>\<open>except\<close>. The handler runs in an application whose start-up (main.py,
  \<^verbatim>\<open>lifespan\<close>) has created the client and does not start without it, and the handler
  has fetched it itself before it asks for the streak: \<^verbatim>\<open>calculate_user_streak\<close> finds
  the client held.
\<close>

definition earn_coins ::
  "(nat \<Rightarrow> bool) \<Rightarrow> int \<Rightarrow> store \<Rightarrow> string \<Rightarrow> ActivityCreate
     \<Rightarrow> (error + earn_response) \<times> store" where
  "earn_coins up now db user_id activity =
     (case dict_getitem ACTIVITY_COINS (ac_activity_type activity) of
        Inl e \<Rightarrow> (Inl failed_to_earn, db)
      | Inr base_coins \<Rightarrow>
     (case calculate_user_streak True (up 0) now db user_id of
        Inl e \<Rightarrow> (Inl failed_to_earn, db)
      | Inr streak_days \<Rightarrow>
     (let streak_multiplier = get_streak_multiplier streak_days in
      case final_coins_of base_coins streak_multiplier of
        Inl e \<Rightarrow> (Inl failed_to_earn, db)
      | Inr final_coins \<Rightarrow>
     (case insert_activity (up 1) now db
             \<lparr>act_user_id = user_id,
              act_activity_type = ActivityType_value (ac_activity_type activity),
              act_coins_earned = final_coins,
              act_duration_minutes = ac_duration_minutes activity,
              act_notes = ac_notes activity,
              act_streak_days = streak_days,
              act_multiplier_applied = streak_multiplier,
              act_created_at = now\<rparr> of
        Inl e \<Rightarrow> (Inl failed_to_earn, db)
      | Inr (activity_data, db1) \<Rightarrow>
     (if activity_data = [] then (Inl (HTTPException 500 ''Failed to record activity''), db1)
      else
     (case select_balance (up 2) db1 user_id of
        Inl e \<Rightarrow> (Inl failed_to_earn, db1)
      | Inr [] \<Rightarrow> (Inl (HTTPException 404 ''Wallet not found''), db1)
      | Inr (current_balance # _) \<Rightarrow>
     (let new_balance = current_balance + final_coins in
      case update_wallet (up 3) db1 user_id new_balance now of
        Inl e \<Rightarrow> (Inl failed_to_earn, db1)
      | Inr (update_data, db2) \<Rightarrow>
     (if update_data = [] then (Inl (HTTPException 500 ''Failed to update balance''), db2)
      else
        (Inr \<lparr>er_message = ''Coins earned successfully!'',
              er_activity_type = ActivityType_value (ac_activity_type activity),
              er_base_coins = base_coins,
              er_streak_days = streak_days,
              er_streak_multiplier = streak_multiplier,
              er_final_coins = final_coins,
              er_new_balance = new_balance\<rparr>, db2)))))))))"

text \<open>
  The route \<^verbatim>\<open>POST /earn\<close>: the body is parsed into \<^verbatim>\<open>ActivityCreate\<close> before the
  handler runs, and a body whose \<^verbatim>\<open>activity_type\<close> is no value of the enum is
  answered with a validation error without the handler being called.
\<close>

record earn_body =
  body_activity_type :: string
  body_duration_minutes :: "int option"
  body_notes :: "string option"

definition parse_ActivityCreate :: "earn_body \<Rightarrow> ActivityCreate option" where
  "parse_ActivityCreate body =
     (case ActivityType_of_value (body_activity_type body) of
        None \<Rightarrow> None
      | Some t \<Rightarrow> Some \<lparr>ac_activity_type = t,
                        ac_duration_minutes = body_duration_minutes body,
                        ac_notes = body_notes body\<rparr>)"

definition post_earn ::
  "(nat \<Rightarrow> bool) \<Rightarrow> int \<Rightarrow> store \<Rightarrow> string \<Rightarrow> earn_body \<Rightarrow> (error + earn_response) \<times> store" where
  "post_earn up now db user_id body =
     (case parse_ActivityCreate body of
        None \<Rightarrow> (Inl RequestValidationError, db)
      | Some activity \<Rightarrow> earn_coins up now db user_id activity)"

text \<open>
  Several calls for one user, one after the other, every store call answered. Each call
  comes with the instant at which it runs.
\<close>

fun earn_all ::
  "string \<Rightarrow> (int \<times> ActivityCreate) list \<Rightarrow> store \<Rightarrow> (error + earn_response) list \<times> store" where
  "earn_all user_id [] db = ([], db)"
| "earn_all user_id ((now, a) # calls) db =
     (let (r, db1) = earn_coins (\<lambda>k. True) now db user_id a;
          (rs, db2) = earn_all user_id calls db1
      in (r # rs, db2))"

subsection \<open>\<^verbatim>\<open>earn_coins\<close> one store call at a time\<close>

text \<open>
  Between two store calls a handler holds only its local variables. The states below
  are the points before each of the four calls, with the locals that are live there;
  \<open>earn_step\<close> runs the handler up to and including its next store call. Calls of
  several handlers reach the store in some order, a schedule. The store is shared by
  every process that serves the API, and nothing in the handler holds it between two
  calls.
\<close>

datatype earn_state =
    Before_streak int
  | Before_insert int int pyfloat int
  | Before_select int int pyfloat int
  | Before_update int int pyfloat int int
  | Returned "error + earn_response"

definition earn_begin :: "ActivityCreate \<Rightarrow> earn_state" where
  "earn_begin activity =
     (case dict_getitem ACTIVITY_COINS (ac_activity_type activity) of
        Inl e \<Rightarrow> Returned (Inl failed_to_earn)
      | Inr base_coins \<Rightarrow> Before_streak base_coins)"

fun earn_step ::
  "bool \<Rightarrow> int \<Rightarrow> string \<Rightarrow> ActivityCreate \<Rightarrow> earn_state \<Rightarrow> store \<Rightarrow> earn_state \<times> store" where
  "earn_step ok now user_id activity (Before_streak base_coins) db =
     (case calculate_user_streak True ok now db user_id of
        Inl e \<Rightarrow> (Returned (Inl failed_to_earn), db)
      | Inr streak_days \<Rightarrow>
          (let streak_multiplier = get_streak_multiplier streak_days in
           case final_coins_of base_coins streak_multiplier of
             Inl e \<Rightarrow> (Returned (Inl failed_to_earn), db)
           | Inr final_coins \<Rightarrow>
               (Before_insert base_coins streak_days streak_multiplier final_coins, db)))"
| "earn_step ok now user_id activity
       (Before_insert base_coins streak_days streak_multiplier final_coins) db =
     (case insert_activity ok now db
             \<lparr>act_user_id = user_id,
              act_activity_type = ActivityType_value (ac_activity_type activity),
              act_coins_earned = final_coins,
              act_duration_minutes = ac_duration_minutes activity,
              act_notes = ac_notes activity,
              act_streak_days = streak_days,
              act_multiplier_applied = streak_multiplier,
              act_created_at = now\<rparr> of
        Inl e \<Rightarrow> (Returned (Inl failed_to_earn), db)
      | Inr (activity_data, db1) \<Rightarrow>
          if activity_data = []
          then (Returned (Inl (HTTPException 500 ''Failed to record activity'')), db1)
          else (Before_select base_coins streak_days streak_multiplier final_coins, db1))"
| "earn_step ok now user_id activity
       (Before_select base_coins streak_days streak_multiplier final_coins) db =
     (case select_balance ok db user_id of
        Inl e \<Rightarrow> (Returned (Inl failed_to_earn), db)
      | Inr [] \<Rightarrow> (Returned (Inl (HTTPException 404 ''Wallet not found'')), db)
      | Inr (current_balance # _) \<Rightarrow>
          (Before_update base_coins streak_days streak_multiplier final_coins
             (current_balance + final_coins), db))"
| "earn_step ok now user_id activity
       (Before_update base_coins streak_days streak_multiplier final_coins new_balance) db =
     (case update_wallet ok db user_id new_balance now of
        Inl e \<Rightarrow> (Returned (Inl failed_to_earn), db)
      | Inr (update_data, db2) \<Rightarrow>
          if update_data = []
          then (Returned (Inl (HTTPException 500 ''Failed to update balance'')), db2)
          else (Returned (Inr \<lparr>er_message = ''Coins earned successfully!'',
                  er_activity_type = ActivityType_value (ac_activity_type activity),
                  er_base_coins = base_coins,
                  er_streak_days = streak_days,
                  er_streak_multiplier = streak_multiplier,
                  er_final_coins = final_coins,
                  er_new_balance = new_balance\<rparr>), db2))"
| "earn_step ok now user_id activity (Returned r) db = (Returned r, db)"

text \<open>
  \<open>run_schedule\<close>: handlers \<open>0, 1, ...\<close> serve the calls of one user, each call with its
  instant and its activity; the schedule names, call after call, the handler whose next
  store call the store serves.
\<close>

fun run_schedule ::
  "string \<Rightarrow> (int \<times> ActivityCreate) list \<Rightarrow> nat list \<Rightarrow> earn_state list \<times> store
     \<Rightarrow> earn_state list \<times> store" where
  "run_schedule user_id calls [] conf = conf"
| "run_schedule user_id calls (i # sched) (states, db) =
     (if i < length states \<and> i < length calls
      then (let (s, db1) = earn_step True (fst (calls ! i)) user_id (snd (calls ! i))
                             (states ! i) db
            in run_schedule user_id calls sched (states[i := s], db1))
      else run_schedule user_id calls sched (states, db))"

section \<open>api/wallet.py: \<^verbatim>\<open>get_activity_history\<close>\<close>

record history_response =
  hist_activities :: "activity_row list"
  hist_total :: nat

text \<open>The query parameter \<^verbatim>\<open>limit: int = 10\<close> is \<open>None\<close> when the request omits it.\<close>

definition get_activity_history ::
  "bool \<Rightarrow> (int \<Rightarrow> activity_row list \<Rightarrow> exn + activity_row list) \<Rightarrow> store \<Rightarrow> string
     \<Rightarrow> int option \<Rightarrow> error + history_response" where
  "get_activity_history ok nonpositive db user_id limit_param =
     (let limit = (case limit_param of None \<Rightarrow> 10 | Some l \<Rightarrow> l)
      in case select_history ok nonpositive db user_id limit of
           Inl e \<Rightarrow> Inl (HTTPException 500 ''Failed to get history'')
         | Inr data \<Rightarrow> Inr \<lparr>hist_activities = data, hist_total = length data\<rparr>)"

section \<open>Stores and rows used in the examples\<close>

text \<open>A user \<open>u\<close> with a wallet of 100 coins and no activity yet.\<close>

definition store_one_wallet :: store where
  "store_one_wallet =
     \<lparr>activities = [],
      wallets = [\<lparr>wal_user_id = ''u'', wal_balance = 100, wal_updated_at = 0\<rparr>]\<rparr>"

text \<open>The rows of a user, most recent first: what the history query orders.\<close>

definition user_rows_desc :: "store \<Rightarrow> string \<Rightarrow> activity_row list" where
  "user_rows_desc db user_id =
     rev (sort_key act_created_at (filter (\<lambda>r. act_user_id r = user_id) (activities db)))"

text \<open>Three activities of \<open>u\<close> on days 1, 3 and 2, and one of another user.\<close>

definition store_history :: store where
  "store_history =
     \<lparr>activities = [evening_row 1, evening_row 3, (evening_row 2)\<lparr>act_user_id := ''v''\<rparr>,
                    evening_row 2],
      wallets = []\<rparr>"

text \<open>A 25-minute pomodoro, and the row that \<^verbatim>\<open>earn_coins\<close> inserts for it at time
  1000 for user \<open>u\<close> with streak 0.\<close>

definition pomodoro :: ActivityCreate where
  "pomodoro = \<lparr>ac_activity_type = POMODORO, ac_duration_minutes = Some 25, ac_notes = None\<rparr>"

definition pomodoro_row :: activity_row where
  "pomodoro_row =
     \<lparr>act_user_id = ''u'', act_activity_type = ''pomodoro_25min'', act_coins_earned = 50,
      act_duration_minutes = Some 25, act_notes = None, act_streak_days = 0,
      act_multiplier_applied = float_1_0, act_created_at = 1000\<rparr>"

text \<open>
  A user who was active every evening from day 93 to day 99 and in the morning of day
  100, seen at 09:00 of day 100 (\<open>now_61\<close>); and a 30-minute exercise.
\<close>

definition store_week :: store where
  "store_week =
     \<lparr>activities = map evening_row [93..99] @ [(evening_row 100)\<lparr>act_created_at := 100 * 86400 + 28800\<rparr>],
      wallets = [\<lparr>wal_user_id = ''u'', wal_balance = 100, wal_updated_at = 0\<rparr>]\<rparr>"

definition exercise :: ActivityCreate where
  "exercise = \<lparr>ac_activity_type = EXERCISE, ac_duration_minutes = Some 30, ac_notes = None\<rparr>"

text \<open>The four steps of one handler with no other handler in between.\<close>

definition earn_sequentially ::
  "(nat \<Rightarrow> bool) \<Rightarrow> int \<Rightarrow> store \<Rightarrow> string \<Rightarrow> ActivityCreate \<Rightarrow> earn_state \<times> store" where
  "earn_sequentially up now db user_id activity =
     (let (s1, db1) = earn_step (up 0) now user_id activity (earn_begin activity) db;
          (s2, db2) = earn_step (up 1) now user_id activity s1 db1;
          (s3, db3) = earn_step (up 2) now user_id activity s2 db2
      in earn_step (up 3) now user_id activity s3 db3)"

section \<open>Properties of the streak multiplier\<close>

lemma sort_STREAK_MULTIPLIERS:
  "sort STREAK_MULTIPLIERS = [(3, float_1_2), (7, float_1_5), (30, float_2_0)]"
  by (simp add: STREAK_MULTIPLIERS_def less_eq_prod_def)

lemma get_streak_multiplier_tiers:
  "get_streak_multiplier n =
     (if 30 \<le> n then float_2_0 else if 7 \<le> n then float_1_5
      else if 3 \<le> n then float_1_2 else float_1_0)"
  by (simp add: get_streak_multiplier_def streak_multiplier_in_def sorted_items_reverse_def
      sort_STREAK_MULTIPLIERS)

lemma sort_mset_cong:
  fixes t t' :: "('a::linorder) list"
  shows "mset t' = mset t \<Longrightarrow> sort t' = sort t"
  by (metis properties_for_sort sorted_sort mset_sort)

lemma multiplier_loop_below_all:
  "\<forall>p \<in> set xs. n < fst p \<Longrightarrow> get_streak_multiplier_loop n xs = float_1_0"
  by (induction xs) auto

lemma multiplier_loop_highest:
  assumes "sorted_wrt (\<lambda>p q. fst q \<le> fst p) xs" "distinct (map fst xs)"
    "(d, m) \<in> set xs" "d \<le> n" "\<forall>p \<in> set xs. fst p \<le> n \<longrightarrow> fst p \<le> d"
  shows "get_streak_multiplier_loop n xs = m"
  using assms
proof (induction xs)
  case Nil
  then show ?case by simp
next
  case (Cons a xs)
  obtain k v where a: "a = (k, v)" by (cases a)
  show ?case
  proof (cases "k \<le> n")
    case True
    with Cons.prems a have "k \<le> d" by auto
    moreover have "d \<le> k" using Cons.prems a by auto
    ultimately have "k = d" by simp
    with Cons.prems a have "v = m" by (auto simp: image_iff)
    with True a show ?thesis by simp
  next
    case False
    with Cons.prems a have "(d, m) \<in> set xs" by auto
    with Cons False a show ?thesis by auto
  qed
qed

lemma sorted_items_reverse_keys:
  "sorted_wrt (\<lambda>p q. fst q \<le> fst p) (sorted_items_reverse t)"
proof -
  have "sorted_wrt (\<le>) (sort t)" by simp
  then have "sorted_wrt (\<lambda>p q. fst p \<le> fst q) (sort t)"
    by (rule sorted_wrt_mono_rel[rotated]) (auto simp: less_eq_prod_def)
  then show ?thesis
    by (simp add: sorted_items_reverse_def sorted_wrt_rev)
qed

lemma distinct_keys_sort:
  fixes t :: "(int \<times> pyfloat) list"
  assumes "distinct (map fst t)"
  shows "distinct (map fst (sort t))"
proof -
  have "mset (map fst (sort t)) = mset (map fst t)" by simp
  then show ?thesis using assms by (metis mset_eq_imp_distinct_iff)
qed

text \<open>
  C1. The streak multiplier is the multiplier of the highest threshold of the table
  that is at most \<open>streakDays\<close>, and exactly 1.0 when \<open>streakDays\<close> is below every
  threshold; a table with the same entries in another order gives the same result.
  On the module's table \<open>{3: 1.2, 7: 1.5, 30: 2.0}\<close>: 2 gives 1.0, 3 and 6 give 1.2,
  7 and 29 give 1.5, 30 and 1000 give 2.0.
\<close>

theorem streak_multiplier_highest_threshold:
  "(distinct (map fst table) \<and> (d, m) \<in> set table \<and> d \<le> n \<and>
      (\<forall>p \<in> set table. fst p \<le> n \<longrightarrow> fst p \<le> d)
      \<longrightarrow> streak_multiplier_in table n = m)
   \<and> ((\<forall>p \<in> set table. n < fst p) \<longrightarrow> streak_multiplier_in table n = float_1_0)
   \<and> (mset table' = mset table
        \<longrightarrow> streak_multiplier_in table' n = streak_multiplier_in table n)
   \<and> get_streak_multiplier n =
       (if 30 \<le> n then float_2_0 else if 7 \<le> n then float_1_5
        else if 3 \<le> n then float_1_2 else float_1_0)
   \<and> get_streak_multiplier 2 = float_1_0
   \<and> get_streak_multiplier 3 = float_1_2
   \<and> get_streak_multiplier 6 = float_1_2
   \<and> get_streak_multiplier 7 = float_1_5
   \<and> get_streak_multiplier 29 = float_1_5
   \<and> get_streak_multiplier 30 = float_2_0
   \<and> get_streak_multiplier 1000 = float_2_0"
proof -
  have highest: "streak_multiplier_in table n = m"
    if "distinct (map fst table)" "(d, m) \<in> set table" "d \<le> n"
      "\<forall>p \<in> set table. fst p \<le> n \<longrightarrow> fst p \<le> d"
  proof -
    have "distinct (map fst (sorted_items_reverse table))"
      using distinct_keys_sort[OF that(1)]
      by (simp add: sorted_items_reverse_def rev_map[symmetric])
    moreover have "(d, m) \<in> set (sorted_items_reverse table)"
      using that(2) by (simp add: sorted_items_reverse_def)
    moreover have "\<forall>p \<in> set (sorted_items_reverse table). fst p \<le> n \<longrightarrow> fst p \<le> d"
      using that(4) by (simp add: sorted_items_reverse_def)
    ultimately show ?thesis
      unfolding streak_multiplier_in_def
      using multiplier_loop_highest[OF sorted_items_reverse_keys _ _ that(3)] by blast
  qed
  have below: "streak_multiplier_in table n = float_1_0"
    if "\<forall>p \<in> set table. n < fst p"
    unfolding streak_multiplier_in_def
    by (rule multiplier_loop_below_all) (use that in \<open>simp add: sorted_items_reverse_def\<close>)
  have order: "streak_multiplier_in table' n = streak_multiplier_in table n"
    if "mset table' = mset table"
    using sort_mset_cong[OF that]
    by (simp add: streak_multiplier_in_def sorted_items_reverse_def)
  show ?thesis
    using highest below order by (simp add: get_streak_multiplier_tiers)
qed

theorem streak_multiplier_highest_threshold_witness:
  "streak_multiplier_in [(30, float_2_0), (3, float_1_2), (7, float_1_5)] 6 = float_1_2
   \<and> streak_multiplier_in [(30, float_2_0), (3, float_1_2), (7, float_1_5)] 2 = float_1_0
   \<and> streak_multiplier_in STREAK_MULTIPLIERS 6 =
       streak_multiplier_in [(30, float_2_0), (3, float_1_2), (7, float_1_5)] 6"
proof -
  let ?T = "[(30, float_2_0), (3, float_1_2), (7 :: int, float_1_5)]"
  have h1: "distinct (map fst ?T) \<and> (3, float_1_2) \<in> set ?T \<and> (3 :: int) \<le> 6 \<and>
      (\<forall>p \<in> set ?T. fst p \<le> 6 \<longrightarrow> fst p \<le> 3)"
    by simp
  have h2: "\<forall>p \<in> set ?T. 2 < fst p"
    by simp
  have h3: "mset STREAK_MULTIPLIERS = mset ?T"
    by (simp add: STREAK_MULTIPLIERS_def)
  have "streak_multiplier_in ?T 6 = float_1_2"
    using streak_multiplier_highest_threshold [of ?T 3 float_1_2 6] h1 by blast
  moreover have "streak_multiplier_in ?T 2 = float_1_0"
    using streak_multiplier_highest_threshold [of ?T _ _ 2] h2 by blast
  moreover have "streak_multiplier_in STREAK_MULTIPLIERS 6 = streak_multiplier_in ?T 6"
    using streak_multiplier_highest_threshold [of ?T _ _ 6 STREAK_MULTIPLIERS] h3 by blast
  ultimately show ?thesis by blast
qed

text \<open>
  C10. The streak multiplier of the modular source (\<^verbatim>\<open>api/wallet.py\<close>) and the one of
  the single-file variant (\<^verbatim>\<open>main_old.py\<close>) agree on every streak.
\<close>

lemma multiplier_loops_agree:
  "get_streak_multiplier_old_loop n xs = get_streak_multiplier_loop n xs"
  by (induction xs) auto

theorem get_streak_multiplier_old_eq:
  "get_streak_multiplier_old streak_days = get_streak_multiplier streak_days"
  by (simp add: get_streak_multiplier_old_def get_streak_multiplier_def
      streak_multiplier_in_def sorted_items_reverse_def multiplier_loops_agree
      STREAK_MULTIPLIERS_old_def STREAK_MULTIPLIERS_def)

section \<open>The next streak milestone\<close>

lemma target_loop_none:
  "\<forall>p \<in> set xs. fst p \<le> n \<Longrightarrow> get_next_streak_target_loop n xs = None"
  by (induction xs) auto

lemma target_loop_lowest:
  assumes "sorted_wrt (\<lambda>p q. fst p \<le> fst q) xs" "distinct (map fst xs)"
    "(d, m) \<in> set xs" "n < d" "\<forall>p \<in> set xs. n < fst p \<longrightarrow> d \<le> fst p"
  shows "get_next_streak_target_loop n xs =
     Some \<lparr>days_needed = d - n, target_days = d, bonus_multiplier = m, message = None\<rparr>"
  using assms
proof (induction xs)
  case Nil
  then show ?case by simp
next
  case (Cons a xs)
  obtain k v where a: "a = (k, v)" by (cases a)
  show ?case
  proof (cases "n < k")
    case True
    with Cons.prems a have "d \<le> k" by auto
    moreover have "k \<le> d" using Cons.prems a by auto
    ultimately have "k = d" by simp
    with Cons.prems a have "v = m" by (auto simp: image_iff)
    with True a \<open>k = d\<close> show ?thesis by simp
  next
    case False
    with Cons.prems a have "(d, m) \<in> set xs" by auto
    with Cons False a show ?thesis by auto
  qed
qed

lemma sorted_items_keys:
  "sorted_wrt (\<lambda>p q. fst p \<le> fst q) (sorted_items t)"
proof -
  have "sorted_wrt (\<le>) (sort t)" by simp
  then show ?thesis
    unfolding sorted_items_def
    by (rule sorted_wrt_mono_rel[rotated]) (auto simp: less_eq_prod_def)
qed

lemma get_next_streak_target_tiers:
  "get_next_streak_target n =
     (if n < 3 then Inr \<lparr>days_needed = 3 - n, target_days = 3,
                          bonus_multiplier = float_1_2, message = None\<rparr>
      else if n < 7 then Inr \<lparr>days_needed = 7 - n, target_days = 7,
                               bonus_multiplier = float_1_5, message = None\<rparr>
      else if n < 30 then Inr \<lparr>days_needed = 30 - n, target_days = 30,
                                bonus_multiplier = float_2_0, message = None\<rparr>
      else Inr \<lparr>days_needed = 0, target_days = n, bonus_multiplier = float_2_0,
                message = Some ''Maximum streak bonus achieved!''\<rparr>)"
  by (simp add: get_next_streak_target_def next_streak_target_in_def sorted_items_def
      sort_STREAK_MULTIPLIERS) (simp add: STREAK_MULTIPLIERS_def)

text \<open>
  C9. The next-milestone query returns the smallest threshold strictly above the current
  streak, with that threshold's multiplier and the days remaining (threshold minus
  streak). When the streak has reached the largest threshold it returns zero days
  remaining and the multiplier of the largest threshold, which on the module's table is
  the largest multiplier, 2.0; this is a result, not an error.
\<close>

theorem next_streak_target_smallest_above:
  "(distinct (map fst table) \<and> (d, m) \<in> set table \<and> n < d \<and>
      (\<forall>p \<in> set table. n < fst p \<longrightarrow> d \<le> fst p)
      \<longrightarrow> next_streak_target_in table n =
            Inr \<lparr>days_needed = d - n, target_days = d, bonus_multiplier = m, message = None\<rparr>)
   \<and> (distinct (map fst table) \<and> (d, m) \<in> set table \<and> d \<le> n \<and>
        (\<forall>p \<in> set table. fst p \<le> d)
      \<longrightarrow> next_streak_target_in table n =
            Inr \<lparr>days_needed = 0, target_days = n, bonus_multiplier = m,
                 message = Some ''Maximum streak bonus achieved!''\<rparr>)
   \<and> get_next_streak_target n =
     (if n < 3 then Inr \<lparr>days_needed = 3 - n, target_days = 3,
                          bonus_multiplier = float_1_2, message = None\<rparr>
      else if n < 7 then Inr \<lparr>days_needed = 7 - n, target_days = 7,
                               bonus_multiplier = float_1_5, message = None\<rparr>
      else if n < 30 then Inr \<lparr>days_needed = 30 - n, target_days = 30,
                                bonus_multiplier = float_2_0, message = None\<rparr>
      else Inr \<lparr>days_needed = 0, target_days = n, bonus_multiplier = float_2_0,
                message = Some ''Maximum streak bonus achieved!''\<rparr>)
   \<and> Max (snd ` set STREAK_MULTIPLIERS) = float_2_0"
proof -
  have above: "next_streak_target_in table n =
      Inr \<lparr>days_needed = d - n, target_days = d, bonus_multiplier = m, message = None\<rparr>"
    if "distinct (map fst table)" "(d, m) \<in> set table" "n < d"
      "\<forall>p \<in> set table. n < fst p \<longrightarrow> d \<le> fst p"
  proof -
    have "distinct (map fst (sorted_items table))"
      using distinct_keys_sort[OF that(1)] by (simp add: sorted_items_def)
    moreover have "(d, m) \<in> set (sorted_items table)"
      using that(2) by (simp add: sorted_items_def)
    moreover have "\<forall>p \<in> set (sorted_items table). n < fst p \<longrightarrow> d \<le> fst p"
      using that(4) by (simp add: sorted_items_def)
    ultimately have "get_next_streak_target_loop n (sorted_items table) =
        Some \<lparr>days_needed = d - n, target_days = d, bonus_multiplier = m, message = None\<rparr>"
      using target_loop_lowest[OF sorted_items_keys _ _ that(3)] by blast
    then show ?thesis by (simp add: next_streak_target_in_def)
  qed
  have top: "next_streak_target_in table n =
      Inr \<lparr>days_needed = 0, target_days = n, bonus_multiplier = m,
           message = Some ''Maximum streak bonus achieved!''\<rparr>"
    if "distinct (map fst table)" "(d, m) \<in> set table" "d \<le> n" "\<forall>p \<in> set table. fst p \<le> d"
  proof -
    have "\<forall>p \<in> set (sorted_items table). fst p \<le> n"
      using that(3,4) by (fastforce simp: sorted_items_def)
    then have loop: "get_next_streak_target_loop n (sorted_items table) = None"
      by (rule target_loop_none)
    have ne: "table \<noteq> []" using that(2) by auto
    have "Max (set (map fst table)) = d"
      using that(2,4) by (intro Max_eqI) (auto simp: image_iff intro: bexI[of _ "(d, m)"])
    moreover have "map_of table d = Some m"
      using that(1,2) by simp
    ultimately show ?thesis
      using loop ne by (simp add: next_streak_target_in_def)
  qed
  have mx: "Max (snd ` set STREAK_MULTIPLIERS) = float_2_0"
    by (simp add: STREAK_MULTIPLIERS_def float_1_2_def float_1_5_def float_2_0_def)
  show ?thesis
    using above top mx get_next_streak_target_tiers by simp
qed

theorem next_streak_target_smallest_above_witness:
  "next_streak_target_in [(30, float_2_0), (3, float_1_2), (7, float_1_5)] 5 =
     Inr \<lparr>days_needed = 2, target_days = 7, bonus_multiplier = float_1_5, message = None\<rparr>
   \<and> next_streak_target_in [(30, float_2_0), (3, float_1_2), (7, float_1_5)] 45 =
     Inr \<lparr>days_needed = 0, target_days = 45, bonus_multiplier = float_2_0,
          message = Some ''Maximum streak bonus achieved!''\<rparr>"
proof -
  let ?T = "[(30, float_2_0), (3, float_1_2), (7 :: int, float_1_5)]"
  have h1: "distinct (map fst ?T) \<and> (7, float_1_5) \<in> set ?T \<and> (5 :: int) < 7 \<and>
      (\<forall>p \<in> set ?T. 5 < fst p \<longrightarrow> 7 \<le> fst p)"
    by simp
  have h2: "distinct (map fst ?T) \<and> (30, float_2_0) \<in> set ?T \<and> (30 :: int) \<le> 45 \<and>
      (\<forall>p \<in> set ?T. fst p \<le> 30)"
    by simp
  have "next_streak_target_in ?T 5 =
      Inr \<lparr>days_needed = 7 - 5, target_days = 7, bonus_multiplier = float_1_5, message = None\<rparr>"
    using next_streak_target_smallest_above [of ?T 7 float_1_5 5] h1 by blast
  moreover have "next_streak_target_in ?T 45 =
      Inr \<lparr>days_needed = 0, target_days = 45, bonus_multiplier = float_2_0,
           message = Some ''Maximum streak bonus achieved!''\<rparr>"
    using next_streak_target_smallest_above [of ?T 30 float_2_0 45] h2 by blast
  ultimately show ?thesis by simp
qed

section \<open>The final coin amount\<close>

lemma binary64_eval:
  assumes "0 < q" "floor_log2 q = k" "- 1022 < k"
    "round_half_even (q / pow2 (k - 52)) = m" "of_int m * pow2 (k - 52) = r" "r < 1000"
  shows "binary64 q = Some r"
proof -
  have "(1000 :: rat) < pow2 1024" by (simp add: pow2_def)
  with assms show ?thesis
    by (simp add: binary64_def binary64_pos_def Let_def max_def)
qed

lemma literal_1_0: "binary64 1 = Some float_1_0"
  unfolding float_1_0_def
  by (rule binary64_eval [where k = 0 and m = 4503599627370496]; code_simp)

lemma literal_1_2: "binary64 (6 / 5) = Some float_1_2"
  unfolding float_1_2_def
  by (rule binary64_eval [where k = 0 and m = 5404319552844595]; code_simp)

lemma literal_1_5: "binary64 (3 / 2) = Some float_1_5"
  unfolding float_1_5_def
  by (rule binary64_eval [where k = 0 and m = 6755399441055744]; code_simp)

lemma literal_2_0: "binary64 2 = Some float_2_0"
  unfolding float_2_0_def
  by (rule binary64_eval [where k = 1 and m = 4503599627370496]; code_simp)

lemma float_of_50: "binary64 50 = Some 50"
  by (rule binary64_eval [where k = 5 and m = 7036874417766400]; code_simp)

lemma times_50_float_1_0: "binary64 (50 * float_1_0) = Some 50"
  by (rule binary64_eval [where k = 5 and m = 7036874417766400]; code_simp)

lemma times_50_float_1_2: "binary64 (50 * float_1_2) = Some 60"
  by (rule binary64_eval [where k = 5 and m = 8444249301319680]; code_simp)

lemma times_50_float_1_5: "binary64 (50 * float_1_5) = Some 75"
  by (rule binary64_eval [where k = 6 and m = 5277655813324800]; code_simp)

lemma times_50_float_2_0: "binary64 (50 * float_2_0) = Some 100"
  by (rule binary64_eval [where k = 6 and m = 7036874417766400]; code_simp)

lemma float_of_75: "binary64 75 = Some 75"
  by (rule binary64_eval [where k = 6 and m = 5277655813324800]; code_simp)

lemma times_75_float_1_0: "binary64 (75 * float_1_0) = Some 75"
  by (rule binary64_eval [where k = 6 and m = 5277655813324800]; code_simp)

lemma times_75_float_1_2: "binary64 (75 * float_1_2) = Some 90"
  by (rule binary64_eval [where k = 6 and m = 6333186975989760]; code_simp)

lemma times_75_float_1_5: "binary64 (75 * float_1_5) = Some (225 / 2)"
  by (rule binary64_eval [where k = 6 and m = 7916483719987200]; code_simp)

lemma times_75_float_2_0: "binary64 (75 * float_2_0) = Some 150"
  by (rule binary64_eval [where k = 7 and m = 5277655813324800]; code_simp)

lemma float_of_100: "binary64 100 = Some 100"
  by (rule binary64_eval [where k = 6 and m = 7036874417766400]; code_simp)

lemma times_100_float_1_0: "binary64 (100 * float_1_0) = Some 100"
  by (rule binary64_eval [where k = 6 and m = 7036874417766400]; code_simp)

lemma times_100_float_1_2: "binary64 (100 * float_1_2) = Some 120"
  by (rule binary64_eval [where k = 6 and m = 8444249301319680]; code_simp)

lemma times_100_float_1_5: "binary64 (100 * float_1_5) = Some 150"
  by (rule binary64_eval [where k = 7 and m = 5277655813324800]; code_simp)

lemma times_100_float_2_0: "binary64 (100 * float_2_0) = Some 200"
  by (rule binary64_eval [where k = 7 and m = 7036874417766400]; code_simp)

lemma float_of_200: "binary64 200 = Some 200"
  by (rule binary64_eval [where k = 7 and m = 7036874417766400]; code_simp)

lemma times_200_float_1_0: "binary64 (200 * float_1_0) = Some 200"
  by (rule binary64_eval [where k = 7 and m = 7036874417766400]; code_simp)

lemma times_200_float_1_2: "binary64 (200 * float_1_2) = Some 240"
  by (rule binary64_eval [where k = 7 and m = 8444249301319680]; code_simp)

lemma times_200_float_1_5: "binary64 (200 * float_1_5) = Some 300"
  by (rule binary64_eval [where k = 8 and m = 5277655813324800]; code_simp)

lemma times_200_float_2_0: "binary64 (200 * float_2_0) = Some 400"
  by (rule binary64_eval [where k = 8 and m = 7036874417766400]; code_simp)

lemmas float_products =
  float_of_50 times_50_float_1_0 times_50_float_1_2 times_50_float_1_5 times_50_float_2_0
  float_of_75 times_75_float_1_0 times_75_float_1_2 times_75_float_1_5 times_75_float_2_0
  float_of_100 times_100_float_1_0 times_100_float_1_2 times_100_float_1_5 times_100_float_2_0
  float_of_200 times_200_float_1_0 times_200_float_1_2 times_200_float_1_5 times_200_float_2_0

lemma floor_225_2: "\<lfloor>225 / 2 :: rat\<rfloor> = 112"
  by (simp add: floor_eq_iff)

lemma final_coins_of_table:
  "final_coins_of 50 float_1_0 = Inr 50" "final_coins_of 50 float_1_2 = Inr 60"
  "final_coins_of 50 float_1_5 = Inr 75" "final_coins_of 50 float_2_0 = Inr 100"
  "final_coins_of 75 float_1_0 = Inr 75" "final_coins_of 75 float_1_2 = Inr 90"
  "final_coins_of 75 float_1_5 = Inr 112" "final_coins_of 75 float_2_0 = Inr 150"
  "final_coins_of 100 float_1_0 = Inr 100" "final_coins_of 100 float_1_2 = Inr 120"
  "final_coins_of 100 float_1_5 = Inr 150" "final_coins_of 100 float_2_0 = Inr 200"
  "final_coins_of 200 float_1_0 = Inr 200" "final_coins_of 200 float_1_2 = Inr 240"
  "final_coins_of 200 float_1_5 = Inr 300" "final_coins_of 200 float_2_0 = Inr 400"
  by (simp_all add: final_coins_of_def int_times_float_def float_of_int_def float_products
      py_int_def floor_225_2)

lemma final_coins_cases:
  "\<exists>b. dict_getitem ACTIVITY_COINS t = Inr b
      \<and> final_coins_of b (get_streak_multiplier n) = Inr \<lfloor>of_int b * spec_multiplier n\<rfloor>
      \<and> 0 \<le> of_int b * spec_multiplier n"
  by (cases t)
    (simp_all add: dict_getitem_def ACTIVITY_COINS_def spec_multiplier_def
      get_streak_multiplier_tiers final_coins_of_table floor_225_2)

text \<open>
  The float 1.2 lies below 6/5, and the exact product of 75 with it has integer part 89;
  it is the rounding of the float product to 90.0 that makes \<^verbatim>\<open>int\<close> return 90.
\<close>

lemma exact_float_product_floor: "\<lfloor>75 * float_1_2\<rfloor> = 89 \<and> float_1_2 < 6 / 5"
  by (simp add: float_1_2_def floor_eq_iff)

text \<open>With the client held, the streak computation returns.\<close>

lemma calculate_user_streak_returns:
  "\<exists>n. calculate_user_streak True ok now db u = Inr n"
  by (cases "calculate_user_streak_try ok now db u")
    (simp_all add: calculate_user_streak_def get_supabase_client_def)

text \<open>
  What a successful \<^verbatim>\<open>earn_coins\<close> reports: the streak that \<^verbatim>\<open>calculate_user_streak\<close>
  returned, the base coins of the activity type, the multiplier of that streak, the
  integer part of their float product; the row it inserted carries the same values, and
  the new balance is the balance read plus the final coins.
\<close>

lemma earn_coins_reports:
  assumes "earn_coins up now db user_id activity = (Inr r, db')"
  shows "calculate_user_streak True (up 0) now db user_id = Inr (er_streak_days r)"
    and "dict_getitem ACTIVITY_COINS (ac_activity_type activity) = Inr (er_base_coins r)"
    and "er_streak_multiplier r = get_streak_multiplier (er_streak_days r)"
    and "final_coins_of (er_base_coins r) (er_streak_multiplier r) = Inr (er_final_coins r)"
    and "activities db' = activities db @
           [\<lparr>act_user_id = user_id,
             act_activity_type = ActivityType_value (ac_activity_type activity),
             act_coins_earned = er_final_coins r,
             act_duration_minutes = ac_duration_minutes activity,
             act_notes = ac_notes activity,
             act_streak_days = er_streak_days r,
             act_multiplier_applied = er_streak_multiplier r,
             act_created_at = now\<rparr>]"
    and "\<exists>current_balance rest. select_balance True db user_id = Inr (current_balance # rest)
           \<and> er_new_balance r = current_balance + er_final_coins r"
  using assms
  by (auto simp: earn_coins_def Let_def insert_activity_def select_balance_def update_wallet_def
      split: sum.splits list.splits if_splits prod.splits)

lemma final_coins_total:
  "\<exists>base final. dict_getitem ACTIVITY_COINS t = Inr base
      \<and> final_coins_of base (get_streak_multiplier n) = Inr final"
  using final_coins_cases by blast

lemma balance_after_update:
  assumes "map wal_balance (filter (\<lambda>w. wal_user_id w = u) ws) = [b]"
  shows "map wal_balance (filter (\<lambda>w. wal_user_id w = u)
           (map (\<lambda>w. if wal_user_id w = u
                      then w\<lparr>wal_balance := nb, wal_updated_at := t\<rparr> else w) ws)) = [nb]"
  using assms
proof (induction ws arbitrary: b)
  case Nil
  then show ?case by simp
next
  case (Cons w ws)
  show ?case
  proof (cases "wal_user_id w = u")
    case True
    with Cons.prems have rest: "filter (\<lambda>w. wal_user_id w = u) ws = []" by simp
    then have "\<forall>x \<in> set ws. wal_user_id x \<noteq> u" by (simp add: filter_empty_conv)
    then have "filter (\<lambda>w. wal_user_id w = u)
           (map (\<lambda>w. if wal_user_id w = u
                      then w\<lparr>wal_balance := nb, wal_updated_at := t\<rparr> else w) ws) = []"
      by (auto simp: filter_empty_conv)
    with True show ?thesis by simp
  next
    case False
    with Cons show ?thesis by simp
  qed
qed

lemma earn_coins_ok:
  assumes "select_balance True db u = Inr [b]"
  shows "\<exists>r db'. earn_coins (\<lambda>k. True) now db u a = (Inr r, db')
           \<and> er_new_balance r = b + er_final_coins r
           \<and> select_balance True db' u = Inr [b + er_final_coins r]"
proof -
  obtain n where n: "calculate_user_streak True True now db u = Inr n"
    using calculate_user_streak_returns by blast
  obtain base final where bf: "dict_getitem ACTIVITY_COINS (ac_activity_type a) = Inr base"
    "final_coins_of base (get_streak_multiplier n) = Inr final"
    using final_coins_total by blast
  have w: "map wal_balance (filter (\<lambda>w. wal_user_id w = u) (wallets db)) = [b]"
    using assms by (simp add: select_balance_def)
  then have ne: "filter (\<lambda>w. wal_user_id w = u) (wallets db) \<noteq> []" by auto
  show ?thesis
    using n bf w ne balance_after_update[OF w, where nb = "b + final" and t = now]
    by (simp add: earn_coins_def Let_def insert_activity_def select_balance_def
        update_wallet_def)
qed

lemma streak_week: "calculate_user_streak True True now_61 store_week ''u'' = Inr 8"
  by code_simp

lemma wallets_store_week:
  "wallets store_week = [\<lparr>wal_user_id = ''u'', wal_balance = 100, wal_updated_at = 0\<rparr>]"
  by (simp add: store_week_def)

text \<open>
  C5. For every activity type and streak, the final coin amount that \<^verbatim>\<open>earn_coins\<close>
  computes is the integer part of \<open>baseCoins * multiplier\<close>, the multiplier being the
  decimal fraction of the table (1.0, 1.2, 1.5, 2.0): the floor, which is the truncation
  towards zero here, and never more than the exact product. The float the code
  multiplies by is the binary64 nearest to that fraction, and the rounded float product
  has the same integer part as the exact decimal product for every entry of the two
  tables. Base 50 with multiplier 1.5 gives 75, base 75 with multiplier 1.2 gives 90.
  Every successful Earn call reports the streak that the streak computation returned,
  the base coins of its activity type, the multiplier of that streak and the final coins
  so computed, and records them in the activity it inserts; with the store answering
  and one wallet for the user the call succeeds. Base coins, multiplier and final coins
  are functions of \<open>(activityType, streakDays)\<close> alone.
\<close>

theorem earn_coins_final_coins_truncated:
  "(\<exists>base_coins final_coins.
      dict_getitem ACTIVITY_COINS activity_type = Inr base_coins
      \<and> final_coins_of base_coins (get_streak_multiplier streak_days) = Inr final_coins
      \<and> binary64 (spec_multiplier streak_days) = Some (get_streak_multiplier streak_days)
      \<and> final_coins = \<lfloor>of_int base_coins * spec_multiplier streak_days\<rfloor>
      \<and> final_coins = py_int (of_int base_coins * spec_multiplier streak_days)
      \<and> of_int final_coins \<le> of_int base_coins * spec_multiplier streak_days)
   \<and> (earn_coins up now db user_id activity = (Inr r, db') \<longrightarrow>
        calculate_user_streak True (up 0) now db user_id = Inr (er_streak_days r)
        \<and> dict_getitem ACTIVITY_COINS (ac_activity_type activity) = Inr (er_base_coins r)
        \<and> er_streak_multiplier r = get_streak_multiplier (er_streak_days r)
        \<and> binary64 (spec_multiplier (er_streak_days r)) = Some (er_streak_multiplier r)
        \<and> final_coins_of (er_base_coins r) (er_streak_multiplier r) = Inr (er_final_coins r)
        \<and> er_final_coins r = \<lfloor>of_int (er_base_coins r) * spec_multiplier (er_streak_days r)\<rfloor>
        \<and> of_int (er_final_coins r) \<le> of_int (er_base_coins r) * spec_multiplier (er_streak_days r)
        \<and> act_coins_earned (last (activities db')) = er_final_coins r
        \<and> act_streak_days (last (activities db')) = er_streak_days r
        \<and> act_multiplier_applied (last (activities db')) = er_streak_multiplier r)
   \<and> (select_balance True db user_id = Inr [b] \<longrightarrow>
        (\<exists>r db'. earn_coins (\<lambda>k. True) now db user_id activity = (Inr r, db')))
   \<and> final_coins_of 50 float_1_5 = Inr 75
   \<and> final_coins_of 75 float_1_2 = Inr 90
   \<and> binary64 (3 / 2) = Some float_1_5
   \<and> binary64 (6 / 5) = Some float_1_2"
proof -
  have lit: "binary64 (spec_multiplier n) = Some (get_streak_multiplier n)" for n
    by (simp add: spec_multiplier_def get_streak_multiplier_tiers
        literal_1_0 literal_1_2 literal_1_5 literal_2_0)
  have pure: "\<exists>base_coins final_coins.
      dict_getitem ACTIVITY_COINS t = Inr base_coins
      \<and> final_coins_of base_coins (get_streak_multiplier n) = Inr final_coins
      \<and> binary64 (spec_multiplier n) = Some (get_streak_multiplier n)
      \<and> final_coins = \<lfloor>of_int base_coins * spec_multiplier n\<rfloor>
      \<and> final_coins = py_int (of_int base_coins * spec_multiplier n)
      \<and> of_int final_coins \<le> of_int base_coins * spec_multiplier n" for t n
  proof -
    obtain b where b: "dict_getitem ACTIVITY_COINS t = Inr b"
      "final_coins_of b (get_streak_multiplier n) = Inr \<lfloor>of_int b * spec_multiplier n\<rfloor>"
      "0 \<le> of_int b * spec_multiplier n"
      using final_coins_cases by blast
    have tr: "\<lfloor>of_int b * spec_multiplier n\<rfloor> = py_int (of_int b * spec_multiplier n)"
      using b(3) by (simp add: py_int_def)
    have le: "of_int \<lfloor>of_int b * spec_multiplier n\<rfloor> \<le> of_int b * spec_multiplier n"
      by (rule of_int_floor_le)
    show ?thesis using b(1,2) lit tr le by blast
  qed
  have earn: "calculate_user_streak True (up 0) now db user_id = Inr (er_streak_days r)
        \<and> dict_getitem ACTIVITY_COINS (ac_activity_type activity) = Inr (er_base_coins r)
        \<and> er_streak_multiplier r = get_streak_multiplier (er_streak_days r)
        \<and> binary64 (spec_multiplier (er_streak_days r)) = Some (er_streak_multiplier r)
        \<and> final_coins_of (er_base_coins r) (er_streak_multiplier r) = Inr (er_final_coins r)
        \<and> er_final_coins r = \<lfloor>of_int (er_base_coins r) * spec_multiplier (er_streak_days r)\<rfloor>
        \<and> of_int (er_final_coins r) \<le> of_int (er_base_coins r) * spec_multiplier (er_streak_days r)
        \<and> act_coins_earned (last (activities db')) = er_final_coins r
        \<and> act_streak_days (last (activities db')) = er_streak_days r
        \<and> act_multiplier_applied (last (activities db')) = er_streak_multiplier r"
    if e: "earn_coins up now db user_id activity = (Inr r, db')"
  proof -
    note rp = earn_coins_reports[OF e]
    obtain bc fc where p: "dict_getitem ACTIVITY_COINS (ac_activity_type activity) = Inr bc"
      "final_coins_of bc (get_streak_multiplier (er_streak_days r)) = Inr fc"
      "fc = \<lfloor>of_int bc * spec_multiplier (er_streak_days r)\<rfloor>"
      "of_int fc \<le> of_int bc * spec_multiplier (er_streak_days r)"
      using pure[of "ac_activity_type activity" "er_streak_days r"] by blast
    have bc: "bc = er_base_coins r" using p(1) rp(2) by simp
    have fc: "fc = er_final_coins r" using p(2) rp(3,4) bc by simp
    have m: "binary64 (spec_multiplier (er_streak_days r)) = Some (er_streak_multiplier r)"
      using lit rp(3) by simp
    show ?thesis
      using rp(1,2,3,4) m p(3,4) bc fc by (simp add: rp(5))
  qed
  have total: "\<exists>r db'. earn_coins (\<lambda>k. True) now db user_id activity = (Inr r, db')"
    if "select_balance True db user_id = Inr [b]"
    using earn_coins_ok[OF that] by blast
  have c1: "final_coins_of 50 float_1_5 = Inr 75" and c2: "final_coins_of 75 float_1_2 = Inr 90"
    by (simp_all add: final_coins_of_table)
  show ?thesis
    using pure[of activity_type streak_days] earn total c1 c2 literal_1_5 literal_1_2
    by blast
qed

theorem earn_coins_final_coins_truncated_witness:
  "fst (earn_coins (\<lambda>k. True) now_61 store_week ''u'' exercise)
     = Inr \<lparr>er_message = ''Coins earned successfully!'',
            er_activity_type = ''exercise_30min'', er_base_coins = 75,
            er_streak_days = 8, er_streak_multiplier = float_1_5,
            er_final_coins = 112, er_new_balance = 212\<rparr>
   \<and> calculate_user_streak True True now_61 store_week ''u'' = Inr 8
   \<and> (112 :: int) = \<lfloor>of_int 75 * spec_multiplier 8\<rfloor>
   \<and> act_coins_earned (last (activities (snd (earn_coins (\<lambda>k. True) now_61 store_week ''u''
        exercise)))) = 112"
proof -
  let ?r = "\<lparr>er_message = ''Coins earned successfully!'',
            er_activity_type = ''exercise_30min'', er_base_coins = 75,
            er_streak_days = 8, er_streak_multiplier = float_1_5,
            er_final_coins = 112, er_new_balance = 212\<rparr>"
  let ?db' = "snd (earn_coins (\<lambda>k. True) now_61 store_week ''u'' exercise)"
  have b: "select_balance True store_week ''u'' = Inr [100]"
    by (simp add: select_balance_def wallets_store_week)
  have f: "fst (earn_coins (\<lambda>k. True) now_61 store_week ''u'' exercise) = Inr ?r"
    using streak_week
    by (simp add: earn_coins_def dict_getitem_def ACTIVITY_COINS_def get_streak_multiplier_tiers
        final_coins_of_table insert_activity_def select_balance_def update_wallet_def exercise_def
        wallets_store_week Let_def)
  then have e: "earn_coins (\<lambda>k. True) now_61 store_week ''u'' exercise = (Inr ?r, ?db')"
    by (metis prod.collapse)
  have "calculate_user_streak True True now_61 store_week ''u'' = Inr (er_streak_days ?r)
      \<and> er_final_coins ?r = \<lfloor>of_int (er_base_coins ?r) * spec_multiplier (er_streak_days ?r)\<rfloor>
      \<and> act_coins_earned (last (activities ?db')) = er_final_coins ?r"
    using earn_coins_final_coins_truncated
      [of _ _ "\<lambda>k. True" now_61 store_week "''u''" exercise ?r ?db' 100] e
    by blast
  moreover have "\<exists>r db'. earn_coins (\<lambda>k. True) now_61 store_week ''u'' exercise = (Inr r, db')"
    using earn_coins_final_coins_truncated
      [of _ _ "\<lambda>k. True" now_61 store_week "''u''" exercise ?r ?db' 100] b
    by blast
  ultimately show ?thesis using f by simp
qed

section \<open>The streak\<close>

lemma streak_loop_spec:
  "\<exists>n. 0 \<le> n \<and> streak_loop ds c s = s + n \<and> (\<forall>i. 0 \<le> i \<and> i < n \<longrightarrow> c - i \<in> set ds)
       \<and> c - n \<notin> set ds"
proof (induction ds c s rule: streak_loop.induct)
  case (1 ds c s)
  show ?case
  proof (cases "c \<in> set ds")
    case True
    from 1[OF True] obtain n where n: "0 \<le> n" "streak_loop ds (c - 1) (s + 1) = s + 1 + n"
      "\<forall>i. 0 \<le> i \<and> i < n \<longrightarrow> c - 1 - i \<in> set ds" "c - 1 - n \<notin> set ds"
      by blast
    have "\<forall>i. 0 \<le> i \<and> i < n + 1 \<longrightarrow> c - i \<in> set ds"
    proof (intro allI impI)
      fix i assume i: "0 \<le> i \<and> i < n + 1"
      show "c - i \<in> set ds"
      proof (cases "i = 0")
        case True
        with \<open>c \<in> set ds\<close> show ?thesis by simp
      next
        case False
        with i n(3)[rule_format, of "i - 1"] show ?thesis by (simp add: algebra_simps)
      qed
    qed
    moreover have "streak_loop ds c s = s + (n + 1)"
      using True n(2) by (subst streak_loop.simps) simp
    moreover have "c - (n + 1) \<notin> set ds" using n(4) by (simp add: algebra_simps)
    ultimately show ?thesis using n(1) by (intro exI[of _ "n + 1"]) simp
  next
    case False
    then have "streak_loop ds c s = s" by (subst streak_loop.simps) simp
    with False show ?thesis by (intro exI[of _ 0]) auto
  qed
qed

lemma select_created_at_dates:
  "select_created_at True db u (now - 60 * 86400) = Inr data \<Longrightarrow>
     set (map date_of data) = window_dates db u now"
  by (auto simp: select_created_at_def window_dates_def filter_map comp_def)

lemma window_dates_lower: "d \<in> window_dates db u now \<Longrightarrow> date_of now - 60 \<le> d"
proof -
  assume "d \<in> window_dates db u now"
  then obtain ts where ts: "now - 60 * 86400 \<le> ts" "d = date_of ts"
    by (auto simp: window_dates_def)
  have "date_of (now - 60 * 86400) = date_of now - 60"
    by (simp add: date_of_def)
  moreover have "date_of (now - 60 * 86400) \<le> date_of ts"
    using ts(1) unfolding date_of_def by (intro zdiv_mono1) simp_all
  ultimately show ?thesis using ts(2) by simp
qed

lemma streak_61: "calculate_user_streak True True now_61 store_61 ''u'' = Inr 61"
  by code_simp

lemma dates_61: "window_dates store_61 ''u'' now_61 = {40..100}"
  by code_simp


lemma calculate_user_streak_ok:
  "\<exists>n. calculate_user_streak True True now db u = Inr n \<and> 0 \<le> n
       \<and> (\<forall>i. 0 \<le> i \<and> i < n \<longrightarrow> date_of now - i \<in> window_dates db u now)
       \<and> date_of now - n \<notin> window_dates db u now"
proof -
  obtain data where data: "select_created_at True db u (now - 60 * 86400) = Inr data"
    by (simp add: select_created_at_def)
  note W = select_created_at_dates[OF data]
  show ?thesis
  proof (cases "data = []")
    case True
    with W have "window_dates db u now = {}" by simp
    moreover have "calculate_user_streak True True now db u = Inr 0"
      using data True by (simp add: calculate_user_streak_def get_supabase_client_def calculate_user_streak_try_def)
    ultimately show ?thesis by auto
  next
    case False
    obtain n where n: "0 \<le> n"
      "streak_loop (map date_of data) (date_of now) 0 = 0 + n"
      "\<forall>i. 0 \<le> i \<and> i < n \<longrightarrow> date_of now - i \<in> set (map date_of data)"
      "date_of now - n \<notin> set (map date_of data)"
      using streak_loop_spec[of "map date_of data" "date_of now" 0] by blast
    have "calculate_user_streak True True now db u = Inr n"
      using data False n(2)
      by (simp add: calculate_user_streak_def get_supabase_client_def calculate_user_streak_try_def)
    with n(1,3,4) W show ?thesis by auto
  qed
qed

text \<open>
  C4. With the client held and the store answering, the streak is the number \<open>n\<close> of consecutive calendar
  days, counted backward from today, that carry an activity of the user inside the
  window (several activities on one day count once): the days today, ..., today - (n - 1)
  are present and day today - n is not. No activity gives 0. The window reaches 60 times
  24 hours back from the current instant and so touches 61 calendar dates: when the 60
  days up to today are all present the streak is 60, unless the window also holds an
  activity dated 60 days ago, and then it is 61; it is never more than 61.
\<close>

theorem calculate_user_streak_consecutive_days:
  "\<exists>n. calculate_user_streak True True now db user_id = Inr n
     \<and> 0 \<le> n \<and> n \<le> 61
     \<and> (\<forall>i. 0 \<le> i \<and> i < n \<longrightarrow> date_of now - i \<in> window_dates db user_id now)
     \<and> date_of now - n \<notin> window_dates db user_id now
     \<and> (window_dates db user_id now = {} \<longrightarrow> n = 0)
     \<and> ((\<forall>i. 0 \<le> i \<and> i < 60 \<longrightarrow> date_of now - i \<in> window_dates db user_id now)
          \<longrightarrow> n = (if date_of now - 60 \<in> window_dates db user_id now then 61 else 60))"
proof -
  let ?W = "window_dates db user_id now"
  obtain n where n: "calculate_user_streak True True now db user_id = Inr n" "0 \<le> n"
    "\<forall>i. 0 \<le> i \<and> i < n \<longrightarrow> date_of now - i \<in> ?W" "date_of now - n \<notin> ?W"
    using calculate_user_streak_ok by blast
  have upper: "n \<le> 61"
  proof (rule ccontr)
    assume "\<not> n \<le> 61"
    then have "date_of now - 61 \<in> ?W" using n(3) by simp
    from window_dates_lower[OF this] show False by simp
  qed
  have empty: "n = 0" if "?W = {}"
  proof (rule ccontr)
    assume "n \<noteq> 0"
    with n(2) have "date_of now - 0 \<in> ?W" using n(3) by (intro n(3)[rule_format]) simp
    with that show False by simp
  qed
  have full: "n = (if date_of now - 60 \<in> ?W then 61 else 60)"
    if all: "\<forall>i. 0 \<le> i \<and> i < 60 \<longrightarrow> date_of now - i \<in> ?W"
  proof -
    have ge: "60 \<le> n"
    proof (rule ccontr)
      assume "\<not> 60 \<le> n"
      with n(2) all have "date_of now - n \<in> ?W" by simp
      with n(4) show False by simp
    qed
    show ?thesis
    proof (cases "date_of now - 60 \<in> ?W")
      case True
      with n(4) have "n \<noteq> 60" by auto
      with ge upper True show ?thesis by simp
    next
      case False
      have "n \<le> 60"
      proof (rule ccontr)
        assume "\<not> n \<le> 60"
        then have "date_of now - 60 \<in> ?W" using n(3) by simp
        with False show False by simp
      qed
      with ge False show ?thesis by simp
    qed
  qed
  show ?thesis
    using n upper empty full by blast
qed

theorem calculate_user_streak_consecutive_days_witness:
  "calculate_user_streak True True now_61 store_61 ''u'' = Inr 61
   \<and> calculate_user_streak True True now_61 \<lparr>activities = [], wallets = []\<rparr> ''u'' = Inr 0"
proof -
  have W: "window_dates store_61 ''u'' now_61 = {40..100}" by (rule dates_61)
  have today: "date_of now_61 = 100" by code_simp
  have all: "\<forall>i. 0 \<le> i \<and> i < 60 \<longrightarrow> date_of now_61 - i \<in> window_dates store_61 ''u'' now_61"
    unfolding W today by auto
  have in60: "date_of now_61 - 60 \<in> window_dates store_61 ''u'' now_61"
    unfolding W today by simp
  have "calculate_user_streak True True now_61 store_61 ''u'' = Inr 61"
    using calculate_user_streak_consecutive_days [of now_61 store_61 "''u''"] all in60
    by auto
  moreover have E: "window_dates \<lparr>activities = [], wallets = []\<rparr> ''u'' now_61 = {}"
    by (simp add: window_dates_def)
  have "calculate_user_streak True True now_61 \<lparr>activities = [], wallets = []\<rparr> ''u'' = Inr 0"
    using calculate_user_streak_consecutive_days
      [of now_61 "\<lparr>activities = [], wallets = []\<rparr>" "''u''"] E
    by auto
  ultimately show ?thesis by simp
qed

text \<open>
  As the claim words it, all 60 window days present would give 60; here every day from
  day 40 to day 100 is present, all inside the window, and the streak is 61.
\<close>

theorem streak_61_counterexample:
  "calculate_user_streak True True now_61 store_61 ''u'' = Inr 61
   \<and> date_of now_61 = 100
   \<and> window_dates store_61 ''u'' now_61 = {40..100}"
  using streak_61 dates_61 by (simp add: date_of_def now_61_def)

section \<open>Storage errors while computing the streak\<close>

text \<open>
  C6. A storage error while the streak is computed does not reach the caller: the
  \<^verbatim>\<open>try\<close> body fails with the store's error, the \<^verbatim>\<open>except\<close> clause catches it, and
  \<^verbatim>\<open>calculate_user_streak\<close> returns 0 in its place. What does leave the function is
  the \<^verbatim>\<open>ValueError\<close> of \<^verbatim>\<open>get_supabase_client()\<close>, raised before the \<^verbatim>\<open>try\<close> when no
  client is held and none can be created.
\<close>

theorem calculate_user_streak_swallows_store_error:
  "calculate_user_streak_try False now db user_id = Inl StoreError
   \<and> calculate_user_streak True False now db user_id = Inr 0
   \<and> calculate_user_streak False ok now db user_id = Inl ValueError"
  by (simp add: calculate_user_streak_def get_supabase_client_def calculate_user_streak_try_def
      select_created_at_def)

lemma wallets_store_61:
  "wallets store_61 = [\<lparr>wal_user_id = ''u'', wal_balance = 100, wal_updated_at = 0\<rparr>]"
  by (simp add: store_61_def)

text \<open>
  As the claim words it the error would reach the caller; here the query raises for a
  user whose streak is 61 and the function returns 0, so that \<^verbatim>\<open>earn_coins\<close> grants 50
  coins with multiplier 1.0 where it grants 100 with multiplier 2.0 when the store
  answers.
\<close>

theorem streak_error_defaults_counterexample:
  "select_created_at False store_61 ''u'' (now_61 - 60 * 86400) = Inl StoreError
   \<and> calculate_user_streak True False now_61 store_61 ''u'' = Inr 0
   \<and> calculate_user_streak True True now_61 store_61 ''u'' = Inr 61
   \<and> fst (earn_coins (\<lambda>k. k \<noteq> 0) now_61 store_61 ''u'' pomodoro)
       = Inr \<lparr>er_message = ''Coins earned successfully!'',
              er_activity_type = ''pomodoro_25min'', er_base_coins = 50,
              er_streak_days = 0, er_streak_multiplier = float_1_0,
              er_final_coins = 50, er_new_balance = 150\<rparr>
   \<and> fst (earn_coins (\<lambda>k. True) now_61 store_61 ''u'' pomodoro)
       = Inr \<lparr>er_message = ''Coins earned successfully!'',
              er_activity_type = ''pomodoro_25min'', er_base_coins = 50,
              er_streak_days = 61, er_streak_multiplier = float_2_0,
              er_final_coins = 100, er_new_balance = 200\<rparr>"
proof -
  have ok: "calculate_user_streak True True now_61 store_61 ''u'' = Inr 61" by (rule streak_61)
  have ko: "calculate_user_streak True False now_61 store_61 ''u'' = Inr 0"
    by (simp add: calculate_user_streak_def get_supabase_client_def calculate_user_streak_try_def select_created_at_def)
  have "fst (earn_coins (\<lambda>k. k \<noteq> 0) now_61 store_61 ''u'' pomodoro)
       = Inr \<lparr>er_message = ''Coins earned successfully!'',
              er_activity_type = ''pomodoro_25min'', er_base_coins = 50,
              er_streak_days = 0, er_streak_multiplier = float_1_0,
              er_final_coins = 50, er_new_balance = 150\<rparr>"
    using ko
    by (simp add: earn_coins_def dict_getitem_def ACTIVITY_COINS_def get_streak_multiplier_tiers
        final_coins_of_table insert_activity_def select_balance_def update_wallet_def pomodoro_def
        wallets_store_61 Let_def)
  moreover have "fst (earn_coins (\<lambda>k. True) now_61 store_61 ''u'' pomodoro)
       = Inr \<lparr>er_message = ''Coins earned successfully!'',
              er_activity_type = ''pomodoro_25min'', er_base_coins = 50,
              er_streak_days = 61, er_streak_multiplier = float_2_0,
              er_final_coins = 100, er_new_balance = 200\<rparr>"
    using ok
    by (simp add: earn_coins_def dict_getitem_def ACTIVITY_COINS_def get_streak_multiplier_tiers
        final_coins_of_table insert_activity_def select_balance_def update_wallet_def pomodoro_def
        wallets_store_61 Let_def)
  ultimately show ?thesis
    using ok ko by (simp add: select_created_at_def)
qed

section \<open>Unknown activity types\<close>

lemma ActivityType_of_value_None:
  "ActivityType_of_value s = None \<longleftrightarrow> s \<notin> range ActivityType_value"
proof
  assume "ActivityType_of_value s = None"
  then have ne: "s \<noteq> ''pomodoro_25min''" "s \<noteq> ''exercise_30min''" "s \<noteq> ''study_1h''"
    "s \<noteq> ''deep_work_2h''"
    by (auto simp: ActivityType_of_value_def split: if_splits)
  show "s \<notin> range ActivityType_value"
  proof
    assume "s \<in> range ActivityType_value"
    then obtain t where "s = ActivityType_value t" by blast
    with ne show False by (cases t) simp_all
  qed
next
  assume n: "s \<notin> range ActivityType_value"
  have "s \<noteq> ActivityType_value POMODORO" "s \<noteq> ActivityType_value EXERCISE"
    "s \<noteq> ActivityType_value STUDY" "s \<noteq> ActivityType_value DEEP_WORK"
    using n by blast+
  then show "ActivityType_of_value s = None"
    by (simp add: ActivityType_of_value_def)
qed

lemma ActivityType_of_value_known:
  "ActivityType_of_value (ActivityType_value t) = Some t"
  by (cases t) (simp_all add: ActivityType_of_value_def)

lemma base_coins_total: "\<exists>c. dict_getitem ACTIVITY_COINS t = Inr c"
  by (cases t) (simp_all add: dict_getitem_def ACTIVITY_COINS_def)

text \<open>
  C7. An Earn request whose activity type is not one of the values of the enumeration
  is answered with a validation error; the store is left as it was: the wallet balance
  is unchanged and no activity record is created. A request with a value of the
  enumeration reaches \<^verbatim>\<open>earn_coins\<close>, where every member has its base coins.
\<close>

theorem unknown_activity_type_rejected:
  "(body_activity_type body \<notin> range ActivityType_value \<longrightarrow>
      post_earn up now db user_id body = (Inl RequestValidationError, db))
   \<and> post_earn up now db user_id (body\<lparr>body_activity_type := ActivityType_value t\<rparr>)
       = earn_coins up now db user_id
           \<lparr>ac_activity_type = t, ac_duration_minutes = body_duration_minutes body,
            ac_notes = body_notes body\<rparr>
   \<and> (\<exists>c. dict_getitem ACTIVITY_COINS t = Inr c)"
proof -
  have unknown: "post_earn up now db user_id body = (Inl RequestValidationError, db)"
    if "body_activity_type body \<notin> range ActivityType_value"
  proof -
    from that have "ActivityType_of_value (body_activity_type body) = None"
      by (simp add: ActivityType_of_value_None)
    then show ?thesis by (simp add: post_earn_def parse_ActivityCreate_def)
  qed
  have known: "post_earn up now db user_id (body\<lparr>body_activity_type := ActivityType_value t\<rparr>)
       = earn_coins up now db user_id
           \<lparr>ac_activity_type = t, ac_duration_minutes = body_duration_minutes body,
            ac_notes = body_notes body\<rparr>"
    by (simp add: post_earn_def parse_ActivityCreate_def ActivityType_of_value_known)
  show ?thesis using unknown known base_coins_total by blast
qed

theorem unknown_activity_type_rejected_witness:
  "post_earn (\<lambda>k. True) 1000 store_one_wallet ''u''
     \<lparr>body_activity_type = ''gaming_1h'', body_duration_minutes = None, body_notes = None\<rparr>
   = (Inl RequestValidationError, store_one_wallet)"
proof -
  let ?body = "\<lparr>body_activity_type = ''gaming_1h'', body_duration_minutes = None,
                 body_notes = None\<rparr>"
  have "ActivityType_of_value ''gaming_1h'' = None"
    by (simp add: ActivityType_of_value_def)
  then have "body_activity_type ?body \<notin> range ActivityType_value"
    by (simp add: ActivityType_of_value_None)
  then show ?thesis
    using unknown_activity_type_rejected [of ?body "\<lambda>k. True" 1000 store_one_wallet "''u''"]
    by blast
qed

section \<open>The activity history\<close>

lemma user_rows_desc_sorted:
  "sorted_wrt (\<lambda>a b. act_created_at b \<le> act_created_at a) (user_rows_desc db u)"
proof -
  have "sorted (map act_created_at (sort_key act_created_at (filter (\<lambda>r. act_user_id r = u) (activities db))))"
    by (rule sorted_sort_key)
  then have "sorted_wrt (\<lambda>a b. act_created_at a \<le> act_created_at b)
      (sort_key act_created_at (filter (\<lambda>r. act_user_id r = u) (activities db)))"
    by (simp add: sorted_map)
  then show ?thesis
    by (simp add: user_rows_desc_def sorted_wrt_rev)
qed

lemma user_rows_desc_mset:
  "mset (user_rows_desc db u) = mset (filter (\<lambda>r. act_user_id r = u) (activities db))"
  by (simp add: user_rows_desc_def)

lemma take_most_recent:
  assumes "sorted_wrt (\<lambda>a b. f b \<le> f a) xs"
  shows "\<forall>a \<in> set (take k xs). \<forall>b \<in> set (drop k xs). f b \<le> f a"
proof -
  have "sorted_wrt (\<lambda>a b. f b \<le> f a) (take k xs @ drop k xs)" using assms by simp
  then show ?thesis unfolding sorted_wrt_append by blast
qed

lemma select_history_pos:
  "0 < limit \<Longrightarrow> select_history True np db u limit = Inr (take (nat limit) (user_rows_desc db u))"
  by (simp add: select_history_def user_rows_desc_def)

text \<open>
  C8. For a positive \<open>limit\<close> the history holds the \<open>limit\<close> most recent activity
  records of the user, ordered by \<open>created_at\<close> descending, and their number as total;
  an omitted \<open>limit\<close> is 10. A non-positive \<open>limit\<close> is not checked: it is handed to the
  store, whose answer (rows or an error, then status 500) is the result, and no value of
  \<open>limit\<close> makes the call fail with a validation error.
\<close>

theorem get_activity_history_most_recent:
  "(0 < limit \<longrightarrow>
      (\<exists>acts. get_activity_history True np db user_id (Some limit)
                = Inr \<lparr>hist_activities = acts, hist_total = length acts\<rparr>
         \<and> acts = take (nat limit) (user_rows_desc db user_id)
         \<and> length acts = min (nat limit) (length (filter (\<lambda>r. act_user_id r = user_id) (activities db)))
         \<and> sorted_wrt (\<lambda>a b. act_created_at b \<le> act_created_at a) acts
         \<and> mset acts \<subseteq># mset (filter (\<lambda>r. act_user_id r = user_id) (activities db))
         \<and> (\<forall>a \<in> set acts.
               \<forall>b \<in># mset (filter (\<lambda>r. act_user_id r = user_id) (activities db)) - mset acts.
                 act_created_at b \<le> act_created_at a)))
   \<and> get_activity_history ok np db user_id None = get_activity_history ok np db user_id (Some 10)
   \<and> (limit \<le> 0 \<longrightarrow>
        get_activity_history True np db user_id (Some limit) =
          (case np limit (user_rows_desc db user_id) of
             Inl e \<Rightarrow> Inl (HTTPException 500 ''Failed to get history'')
           | Inr data \<Rightarrow> Inr \<lparr>hist_activities = data, hist_total = length data\<rparr>))
   \<and> get_activity_history ok np db user_id limit_param \<noteq> Inl RequestValidationError"
proof -
  let ?rows = "filter (\<lambda>r. act_user_id r = user_id) (activities db)"
  let ?S = "user_rows_desc db user_id"
  have pos: "\<exists>acts. get_activity_history True np db user_id (Some limit)
                = Inr \<lparr>hist_activities = acts, hist_total = length acts\<rparr>
         \<and> acts = take (nat limit) ?S
         \<and> length acts = min (nat limit) (length ?rows)
         \<and> sorted_wrt (\<lambda>a b. act_created_at b \<le> act_created_at a) acts
         \<and> mset acts \<subseteq># mset ?rows
         \<and> (\<forall>a \<in> set acts. \<forall>b \<in># mset ?rows - mset acts. act_created_at b \<le> act_created_at a)"
    if "0 < limit"
  proof -
    let ?acts = "take (nat limit) ?S"
    have S: "mset ?S = mset ?rows" by (rule user_rows_desc_mset)
    have split: "mset ?S = mset ?acts + mset (drop (nat limit) ?S)"
      by (metis append_take_drop_id mset_append)
    have r: "get_activity_history True np db user_id (Some limit)
        = Inr \<lparr>hist_activities = ?acts, hist_total = length ?acts\<rparr>"
      using that by (simp add: get_activity_history_def select_history_pos)
    have len: "length ?acts = min (nat limit) (length ?rows)"
      using S by (metis length_take min.commute size_mset)
    have srt: "sorted_wrt (\<lambda>a b. act_created_at b \<le> act_created_at a) ?acts"
      using user_rows_desc_sorted[of db user_id] by (rule sorted_wrt_take)
    have sub: "mset ?acts \<subseteq># mset ?rows"
      using split S by (metis mset_subset_eq_add_left)
    have rest: "mset ?rows - mset ?acts = mset (drop (nat limit) ?S)"
      using split S by (metis add_diff_cancel_left')
    have rec: "\<forall>a \<in> set ?acts. \<forall>b \<in># mset ?rows - mset ?acts. act_created_at b \<le> act_created_at a"
      unfolding rest using take_most_recent[OF user_rows_desc_sorted, of "nat limit" db user_id]
      by simp
    show ?thesis using r len srt sub rec by blast
  qed
  have dflt: "get_activity_history ok np db user_id None = get_activity_history ok np db user_id (Some 10)"
    by (simp add: get_activity_history_def)
  have nonpos: "get_activity_history True np db user_id (Some limit) =
          (case np limit ?S of
             Inl e \<Rightarrow> Inl (HTTPException 500 ''Failed to get history'')
           | Inr data \<Rightarrow> Inr \<lparr>hist_activities = data, hist_total = length data\<rparr>)"
    if "limit \<le> 0"
    using that by (simp add: get_activity_history_def select_history_def user_rows_desc_def)
  have noval: "get_activity_history ok np db user_id limit_param \<noteq> Inl RequestValidationError"
    by (simp add: get_activity_history_def Let_def split: sum.splits)
  show ?thesis using pos dflt nonpos noval by blast
qed

theorem get_activity_history_most_recent_witness:
  "get_activity_history True sql_limit store_history ''u'' (Some 2)
     = Inr \<lparr>hist_activities = [evening_row 3, evening_row 2], hist_total = 2\<rparr>
   \<and> get_activity_history True sql_limit store_history ''u'' (Some (- 1))
     = Inl (HTTPException 500 ''Failed to get history'')"
proof -
  have S: "user_rows_desc store_history ''u'' = [evening_row 3, evening_row 2, evening_row 1]"
    by (simp add: user_rows_desc_def store_history_def evening_row_def)
  have p: "(0 :: int) < 2" and q: "(- 1 :: int) \<le> 0" by simp_all
  obtain acts where acts:
    "get_activity_history True sql_limit store_history ''u'' (Some 2)
       = Inr \<lparr>hist_activities = acts, hist_total = length acts\<rparr>"
    "acts = take (nat 2) (user_rows_desc store_history ''u'')"
    using get_activity_history_most_recent [of 2 sql_limit store_history "''u''"] p by blast
  have "acts = [evening_row 3, evening_row 2]"
    using acts(2) S by simp
  with acts(1) have "get_activity_history True sql_limit store_history ''u'' (Some 2)
     = Inr \<lparr>hist_activities = [evening_row 3, evening_row 2], hist_total = 2\<rparr>"
    by simp
  moreover have "get_activity_history True sql_limit store_history ''u'' (Some (- 1)) =
      (case sql_limit (- 1) (user_rows_desc store_history ''u'') of
         Inl e \<Rightarrow> Inl (HTTPException 500 ''Failed to get history'')
       | Inr data \<Rightarrow> Inr \<lparr>hist_activities = data, hist_total = length data\<rparr>)"
    using get_activity_history_most_recent [of "- 1" sql_limit store_history "''u''"] q by blast
  then have "get_activity_history True sql_limit store_history ''u'' (Some (- 1))
     = Inl (HTTPException 500 ''Failed to get history'')"
    by (simp add: sql_limit_def)
  ultimately show ?thesis by simp
qed

text \<open>
  As the claim words it a non-positive limit would be rejected with a validation error;
  here, on a store with SQL's \<^verbatim>\<open>LIMIT\<close>, limit 0 is answered with an empty history and
  limit -1 with status 500.
\<close>

theorem nonpositive_limit_passed_through_counterexample:
  "get_activity_history True sql_limit store_history ''u'' (Some 0)
     = Inr \<lparr>hist_activities = [], hist_total = 0\<rparr>
   \<and> get_activity_history True sql_limit store_history ''u'' (Some (- 1))
     = Inl (HTTPException 500 ''Failed to get history'')
   \<and> Inl (HTTPException 500 ''Failed to get history'') \<noteq> (Inl RequestValidationError :: error + history_response)"
  by (simp add: get_activity_history_def select_history_def sql_limit_def)

section \<open>The effects of \<^verbatim>\<open>earn_coins\<close> on the store\<close>

lemma streak_no_rows:
  "calculate_user_streak True ok now \<lparr>activities = [], wallets = ws\<rparr> u = Inr 0"
  by (simp add: calculate_user_streak_def get_supabase_client_def calculate_user_streak_try_def select_created_at_def)

lemmas earn_eval =
  dict_getitem_def ACTIVITY_COINS_def get_streak_multiplier_tiers final_coins_of_table
  insert_activity_def select_balance_def update_wallet_def failed_to_earn_def pomodoro_def
  pomodoro_row_def store_one_wallet_def streak_no_rows Let_def

text \<open>
  C3. The claim: when the balance step of an Earn call fails after the activity record
  was appended, the state seen on the error has neither the record nor the balance
  change. \<^verbatim>\<open>earn_coins\<close> does not undo the insert: with the wallet update unreachable, and
  also with no wallet row for the user, the call fails and the store keeps the new
  activity record while no balance has changed.
\<close>

theorem earn_coins_orphaned_activity:
  "earn_coins (\<lambda>k. k \<noteq> 3) 1000 store_one_wallet ''u'' pomodoro
     = (Inl (HTTPException 500 ''Failed to earn coins''),
        \<lparr>activities = [pomodoro_row],
         wallets = [\<lparr>wal_user_id = ''u'', wal_balance = 100, wal_updated_at = 0\<rparr>]\<rparr>)
   \<and> earn_coins (\<lambda>k. True) 1000 \<lparr>activities = [], wallets = []\<rparr> ''u'' pomodoro
     = (Inl (HTTPException 404 ''Wallet not found''),
        \<lparr>activities = [pomodoro_row], wallets = []\<rparr>)"
  by (simp add: earn_coins_def earn_eval)

text \<open>The step-wise reading of \<^verbatim>\<open>earn_coins\<close> run alone is \<^verbatim>\<open>earn_coins\<close>.\<close>

lemma earn_sequentially_earn_coins:
  "earn_sequentially up now db user_id activity =
     (Returned (fst (earn_coins up now db user_id activity)),
      snd (earn_coins up now db user_id activity))"
  unfolding earn_sequentially_def earn_coins_def earn_begin_def
  by (auto simp: Let_def split: sum.splits list.splits prod.splits)

text \<open>
  C2. When Earn calls for one user run one after the other, the store answering and
  the user owning one wallet row, every call succeeds and the final balance is the
  initial balance plus the sum of the coins granted. The balance update itself is a
  read of the balance followed by an unconditional write of the sum computed in the
  handler; nothing ties the write to the value read.
\<close>

theorem earn_all_balance:
  "select_balance True db user_id = Inr [b] \<Longrightarrow>
     \<exists>rs db'. earn_all user_id calls db = (map Inr rs, db')
        \<and> length rs = length calls
        \<and> select_balance True db' user_id = Inr [b + sum_list (map er_final_coins rs)]"
proof (induction calls arbitrary: db b)
  case Nil
  then show ?case by simp
next
  case (Cons c calls)
  obtain now a where c: "c = (now, a)" by (cases c)
  obtain r db1 where r: "earn_coins (\<lambda>k. True) now db user_id a = (Inr r, db1)"
    "select_balance True db1 user_id = Inr [b + er_final_coins r]"
    using earn_coins_ok[OF Cons.prems] by blast
  obtain rs db2 where rs: "earn_all user_id calls db1 = (map Inr rs, db2)"
    "length rs = length calls"
    "select_balance True db2 user_id = Inr [b + er_final_coins r + sum_list (map er_final_coins rs)]"
    using Cons.IH[OF r(2)] by blast
  show ?case
    using c r(1) rs by (intro exI[of _ "r # rs"] exI[of _ db2]) (simp add: add.assoc)
qed

theorem earn_all_balance_witness:
  "\<exists>rs db'. earn_all ''u'' [(1000, pomodoro), (90000, exercise), (180000, pomodoro)]
                store_one_wallet = (map Inr rs, db')
      \<and> length rs = 3
      \<and> select_balance True db' ''u'' = Inr [100 + sum_list (map er_final_coins rs)]"
proof -
  let ?calls = "[(1000 :: int, pomodoro), (90000, exercise), (180000, pomodoro)]"
  have "select_balance True store_one_wallet ''u'' = Inr [100]"
    by (simp add: select_balance_def store_one_wallet_def)
  from earn_all_balance [OF this, of ?calls]
  obtain rs db' where "earn_all ''u'' ?calls store_one_wallet = (map Inr rs, db')"
    "length rs = length ?calls"
    "select_balance True db' ''u'' = Inr [100 + sum_list (map er_final_coins rs)]"
    by blast
  then show ?thesis by (intro exI[of _ rs] exI[of _ db']) simp
qed

text \<open>
  As the claim words it, concurrent calls would lose no update; here the store serves
  the calls of two handlers in turn, both read balance 100, both write 150, and the
  wallet ends at 150 with two activities of 50 coins recorded.
\<close>

theorem lost_update_counterexample:
  "run_schedule ''u'' [(1000, pomodoro), (1001, pomodoro)] [0, 1, 0, 1, 0, 1, 0, 1]
       ([earn_begin pomodoro, earn_begin pomodoro], store_one_wallet)
     = ([Returned (Inr \<lparr>er_message = ''Coins earned successfully!'',
                         er_activity_type = ''pomodoro_25min'', er_base_coins = 50,
                         er_streak_days = 0, er_streak_multiplier = float_1_0,
                         er_final_coins = 50, er_new_balance = 150\<rparr>),
         Returned (Inr \<lparr>er_message = ''Coins earned successfully!'',
                         er_activity_type = ''pomodoro_25min'', er_base_coins = 50,
                         er_streak_days = 0, er_streak_multiplier = float_1_0,
                         er_final_coins = 50, er_new_balance = 150\<rparr>)],
        \<lparr>activities = [pomodoro_row, pomodoro_row\<lparr>act_created_at := 1001\<rparr>],
         wallets = [\<lparr>wal_user_id = ''u'', wal_balance = 150, wal_updated_at = 1001\<rparr>]\<rparr>)
   \<and> (150 :: int) \<noteq> 100 + (50 + 50)"
  by (simp add: earn_begin_def earn_eval)

end
